theory Spec2Isabelle
  imports Main
begin

section \<open>Shared data: symbols, types, kinds, tokens, the error sink\<close>

text \<open>
  The symbol tags of \<^verbatim>\<open>symbol::symbol_type\<close>, in the order in which
  \<^verbatim>\<open>error_message\<close> (scanner.cpp) numbers them, followed by \<^verbatim>\<open>nul\<close>, the tag
  of a token the scanner could not classify. \<^verbatim>\<open>symbol::identifier\<close> is written
  \<open>identifier_sym\<close>, the bare word being reserved.
\<close>

datatype (plugins only: code size) symbol_type =
    identifier_sym | strng | real_num | integer | end_of_program
  | semicolon_sym | colon_sym | comma_sym | equals_sym | not_equals_sym
  | less_than_sym | greater_than_sym | less_or_equal_sym | greater_or_equal_sym
  | plus_sym | minus_sym | slash_sym | asterisk_sym | power_sym | ampersand_sym
  | left_paren_sym | right_paren_sym | range_sym | becomes_sym
  | and_sym | begin_sym | boolean_sym | constant_sym | else_sym | elsif_sym
  | end_sym | eof_sym | exit_sym | false_sym | for_sym | function_sym | if_sym
  | in_sym | integer_sym | is_sym | loop_sym | not_sym | null_sym | odd_sym
  | or_sym | pragma_sym | procedure_sym | program_sym | read_sym | real_sym
  | ref_sym | return_sym | reverse_sym | string_sym | then_sym | true_sym
  | value_sym | when_sym | while_sym | write_sym | writeln_sym
  | nul

text \<open>\<^verbatim>\<open>lille_type::lille_ty\<close>: the tags the sources use.\<close>

datatype lille_ty =
    type_integer | type_real | type_string | type_boolean
  | type_prog | type_func | type_unknown

text \<open>
  Modelled from the spec: \<^verbatim>\<open>lille_kind\<close> (lille_kind.h is not among the sources).
  The sources name \<^verbatim>\<open>variable\<close>, \<^verbatim>\<open>constant\<close> and \<^verbatim>\<open>unknown\<close>; the spec's data
  model adds procedure, function and program.
\<close>

datatype lille_kind =
    kind_unknown | kind_variable | kind_constant
  | kind_procedure | kind_function | kind_program

text \<open>
  Modelled from the spec: the token (token.h is not among the sources): a symbol tag,
  the 1-based line and 0-based column of the lexeme, and the payloads the getters
  \<^verbatim>\<open>get_integer_value\<close>, \<^verbatim>\<open>get_real_value\<close>, \<^verbatim>\<open>get_string_value\<close> and
  \<^verbatim>\<open>get_identifier_value\<close> read. A \<^verbatim>\<open>float\<close> is represented by the text that
  \<^verbatim>\<open>operator<<\<close> prints for it, the only way the compiler observes one.
\<close>

type_synonym cfloat = string

record token =
  tk_sym :: symbol_type
  tk_line :: int
  tk_pos :: int
  tk_integer_value :: int
  tk_real_value :: cfloat
  tk_string_value :: string
  tk_identifier_value :: string

definition new_token :: "symbol_type \<Rightarrow> int \<Rightarrow> int \<Rightarrow> token" where
  "new_token s l p =
     \<lparr>tk_sym = s, tk_line = l, tk_pos = p, tk_integer_value = 0,
      tk_real_value = ''0'', tk_string_value = [], tk_identifier_value = []\<rparr>"

text \<open>
  Modelled from the spec: the error sink (error_handler.h is not among the sources)
  accepts a diagnostic by (line, column, code) or by (token, code). The sink is the
  sequence of the \<^verbatim>\<open>flag\<close> calls it has received; a token argument is a pointer and
  may be null.
\<close>

datatype diagnostic =
    Flag_pos int int int
  | Flag_tok "token option" int

type_synonym error_handler = "diagnostic list"

definition flag_pos :: "int \<Rightarrow> int \<Rightarrow> int \<Rightarrow> error_handler \<Rightarrow> error_handler" where
  "flag_pos l c code err = err @ [Flag_pos l c code]"

definition flag_tok :: "token option \<Rightarrow> int \<Rightarrow> error_handler \<Rightarrow> error_handler" where
  "flag_tok t code err = err @ [Flag_tok t code]"

datatype lille_exception = Lille_exception string

text \<open>
  \<^verbatim>\<open>error_message\<close> (scanner.cpp) maps a symbol to the code of the diagnostic "this
  symbol was expected"; it throws for a symbol outside its table.
\<close>

definition error_message :: "symbol_type \<Rightarrow> lille_exception + int" where
  "error_message s =
     (case s of
        identifier_sym \<Rightarrow> Inr 0 | strng \<Rightarrow> Inr 1 | real_num \<Rightarrow> Inr 2 | integer \<Rightarrow> Inr 3
      | end_of_program \<Rightarrow> Inr 4 | semicolon_sym \<Rightarrow> Inr 5 | colon_sym \<Rightarrow> Inr 6
      | comma_sym \<Rightarrow> Inr 7 | equals_sym \<Rightarrow> Inr 8 | not_equals_sym \<Rightarrow> Inr 9
      | less_than_sym \<Rightarrow> Inr 10 | greater_than_sym \<Rightarrow> Inr 11 | less_or_equal_sym \<Rightarrow> Inr 12
      | greater_or_equal_sym \<Rightarrow> Inr 13 | plus_sym \<Rightarrow> Inr 14 | minus_sym \<Rightarrow> Inr 15
      | slash_sym \<Rightarrow> Inr 16 | asterisk_sym \<Rightarrow> Inr 17 | power_sym \<Rightarrow> Inr 18
      | ampersand_sym \<Rightarrow> Inr 19 | left_paren_sym \<Rightarrow> Inr 20 | right_paren_sym \<Rightarrow> Inr 21
      | range_sym \<Rightarrow> Inr 22 | becomes_sym \<Rightarrow> Inr 23 | and_sym \<Rightarrow> Inr 24
      | begin_sym \<Rightarrow> Inr 25 | boolean_sym \<Rightarrow> Inr 26 | constant_sym \<Rightarrow> Inr 27
      | else_sym \<Rightarrow> Inr 28 | elsif_sym \<Rightarrow> Inr 29 | end_sym \<Rightarrow> Inr 30 | eof_sym \<Rightarrow> Inr 31
      | exit_sym \<Rightarrow> Inr 32 | false_sym \<Rightarrow> Inr 33 | for_sym \<Rightarrow> Inr 34
      | function_sym \<Rightarrow> Inr 35 | if_sym \<Rightarrow> Inr 36 | in_sym \<Rightarrow> Inr 37
      | integer_sym \<Rightarrow> Inr 38 | is_sym \<Rightarrow> Inr 39 | loop_sym \<Rightarrow> Inr 40 | not_sym \<Rightarrow> Inr 41
      | null_sym \<Rightarrow> Inr 42 | odd_sym \<Rightarrow> Inr 43 | or_sym \<Rightarrow> Inr 44 | pragma_sym \<Rightarrow> Inr 45
      | procedure_sym \<Rightarrow> Inr 46 | program_sym \<Rightarrow> Inr 47 | read_sym \<Rightarrow> Inr 48
      | real_sym \<Rightarrow> Inr 49 | ref_sym \<Rightarrow> Inr 50 | return_sym \<Rightarrow> Inr 51
      | reverse_sym \<Rightarrow> Inr 52 | string_sym \<Rightarrow> Inr 53 | then_sym \<Rightarrow> Inr 54
      | true_sym \<Rightarrow> Inr 55 | value_sym \<Rightarrow> Inr 56 | when_sym \<Rightarrow> Inr 57
      | while_sym \<Rightarrow> Inr 58 | write_sym \<Rightarrow> Inr 59 | writeln_sym \<Rightarrow> Inr 60
      | nul \<Rightarrow> Inl (Lille_exception ''Unexpected symbol passed to error_message (scanner).''))"

text \<open>The code at a call site whose argument is in the table (every call site of the sources).\<close>

definition error_code :: "symbol_type \<Rightarrow> int" where
  "error_code s = (case error_message s of Inr n \<Rightarrow> n | Inl e \<Rightarrow> 0)"

section \<open>The symbol table (id\_table.h, id\_table.cpp)\<close>

text \<open>
  A record stores the name, the type and the kind. A scope is the
  \<^verbatim>\<open>unordered_map<string, record*>\<close> of one frame, kept here as a list of its entries
  in iteration order (keys are unique: \<^verbatim>\<open>enter\<close> adds a name only when it is absent;
  where a new entry lands in that order is unspecified, the model appends it and no
  theorem depends on the order).
  \<^verbatim>\<open>scopes\<close> is the vector of frames: the head is the global scope, the last element
  is \<^verbatim>\<open>scopes.back()\<close>, the current scope.
\<close>

record id_record =
  rec_name :: string
  rec_ty :: lille_ty
  rec_kd :: lille_kind

definition new_record :: "string \<Rightarrow> id_record" where
  "new_record n = \<lparr>rec_name = n, rec_ty = type_unknown, rec_kd = kind_unknown\<rparr>"

type_synonym scope = "(string \<times> id_record) list"

type_synonym id_table = "scope list"

definition id_table_init :: id_table where
  "id_table_init = [[]]"

definition open_scope :: "id_table \<Rightarrow> id_table" where
  "open_scope scopes = scopes @ [[]]"

definition close_scope :: "id_table \<Rightarrow> id_table" where
  "close_scope scopes = (if length scopes \<le> 1 then scopes else butlast scopes)"

definition lookup_local :: "id_table \<Rightarrow> string \<Rightarrow> id_record option" where
  "lookup_local scopes n = map_of (last scopes) n"

text \<open>\<^verbatim>\<open>lookup\<close> walks the frames from \<^verbatim>\<open>scopes.size() - 1\<close> down to 0.\<close>

fun lookup_from :: "scope list \<Rightarrow> string \<Rightarrow> id_record option" where
  "lookup_from [] n = None"
| "lookup_from (sc # outer) n =
     (case map_of sc n of Some r \<Rightarrow> Some r | None \<Rightarrow> lookup_from outer n)"

definition lookup :: "id_table \<Rightarrow> string \<Rightarrow> id_record option" where
  "lookup scopes n = lookup_from (rev scopes) n"

text \<open>
  \<^verbatim>\<open>enter\<close> returns a pointer to the record of the name in the current scope, which
  the caller then writes through; the model returns the table and offers the two
  writes \<^verbatim>\<open>set_type\<close> and \<^verbatim>\<open>set_kind\<close> on that record.
\<close>

definition enter :: "string \<Rightarrow> id_table \<Rightarrow> id_table" where
  "enter n scopes =
     (case map_of (last scopes) n of
        Some r \<Rightarrow> scopes
      | None \<Rightarrow> butlast scopes @ [last scopes @ [(n, new_record n)]])"

definition update_current :: "string \<Rightarrow> (id_record \<Rightarrow> id_record) \<Rightarrow> id_table \<Rightarrow> id_table" where
  "update_current n f scopes =
     butlast scopes @ [map (\<lambda>(k, r). if k = n then (k, f r) else (k, r)) (last scopes)]"

definition set_type :: "string \<Rightarrow> lille_ty \<Rightarrow> id_table \<Rightarrow> id_table" where
  "set_type n t = update_current n (\<lambda>r. r\<lparr>rec_ty := t\<rparr>)"

definition set_kind :: "string \<Rightarrow> lille_kind \<Rightarrow> id_table \<Rightarrow> id_table" where
  "set_kind n k = update_current n (\<lambda>r. r\<lparr>rec_kd := k\<rparr>)"

datatype scope_op = Open_scope | Close_scope

fun run_scope_op :: "scope_op \<Rightarrow> id_table \<Rightarrow> id_table" where
  "run_scope_op Open_scope t = open_scope t"
| "run_scope_op Close_scope t = close_scope t"

definition run_scope_ops :: "scope_op list \<Rightarrow> id_table \<Rightarrow> id_table" where
  "run_scope_ops ops t = fold run_scope_op ops t"

section \<open>The semantic analyzer (semantics.h, semantics.cpp)\<close>

text \<open>
  The analyzer holds a pointer to the symbol table and one to the error sink; each
  operation takes and returns the parts it touches. \<open>wh\<close> is the \<^verbatim>\<open>token* where\<close>
  argument.
\<close>

definition is_num :: "lille_ty \<Rightarrow> bool" where
  "is_num t = (t = type_integer \<or> t = type_real)"

definition is_bool :: "lille_ty \<Rightarrow> bool" where
  "is_bool t = (t = type_boolean)"

definition is_str :: "lille_ty \<Rightarrow> bool" where
  "is_str t = (t = type_string)"

definition declare_var ::
  "string \<Rightarrow> lille_ty \<Rightarrow> token option \<Rightarrow> id_table \<times> error_handler \<Rightarrow> id_table \<times> error_handler" where
  "declare_var n ty wh st =
     (case st of (tab, err) \<Rightarrow>
        if lookup_local tab n \<noteq> None then (tab, flag_tok wh 82 err)
        else (set_type n ty (set_kind n kind_variable (enter n tab)), err))"

definition declare_const ::
  "string \<Rightarrow> lille_ty \<Rightarrow> token option \<Rightarrow> id_table \<times> error_handler \<Rightarrow> id_table \<times> error_handler" where
  "declare_const n ty wh st =
     (case st of (tab, err) \<Rightarrow>
        if lookup_local tab n \<noteq> None then (tab, flag_tok wh 82 err)
        else (set_type n ty (set_kind n kind_constant (enter n tab)), err))"

definition lookup_type ::
  "string \<Rightarrow> token option \<Rightarrow> id_table \<Rightarrow> error_handler \<Rightarrow> lille_ty \<times> error_handler" where
  "lookup_type n wh tab err =
     (if n = ''INT2REAL'' then (type_real, err)
      else if n = ''REAL2INT'' then (type_integer, err)
      else if n = ''INT2STRING'' then (type_string, err)
      else if n = ''REAL2STRING'' then (type_string, err)
      else case lookup tab n of
             None \<Rightarrow> (type_unknown, flag_tok wh 81 err)
           | Some r \<Rightarrow> (rec_ty r, err))"

definition check_assignment ::
  "string \<Rightarrow> lille_ty \<Rightarrow> token option \<Rightarrow> id_table \<Rightarrow> error_handler \<Rightarrow> error_handler" where
  "check_assignment lhs_name rhs wh tab err =
     (case lookup tab lhs_name of
        None \<Rightarrow> flag_tok wh 81 err
      | Some r \<Rightarrow>
          if rec_kd r = kind_constant then flag_tok wh 85 err
          else if rec_ty r = rhs then err
          else if rec_ty r = type_real \<and> rhs = type_integer then err
          else if rec_ty r = type_unknown \<or> rhs = type_unknown then err
          else flag_tok wh 93 err)"

definition install_builtins :: "id_table \<Rightarrow> id_table" where
  "install_builtins tab =
     set_type ''REAL2STRING'' type_func (enter ''REAL2STRING''
     (set_type ''REAL2INT'' type_func (enter ''REAL2INT''
     (set_type ''INT2STRING'' type_func (enter ''INT2STRING''
     (set_type ''INT2REAL'' type_func (enter ''INT2REAL'' tab)))))))"

definition is_promotable :: "lille_ty \<Rightarrow> bool" where
  "is_promotable t = (t = type_integer \<or> t = type_real \<or> t = type_boolean)"

definition check_binary ::
  "lille_ty \<Rightarrow> symbol_type \<Rightarrow> lille_ty \<Rightarrow> token option \<Rightarrow> error_handler \<Rightarrow> lille_ty \<times> error_handler" where
  "check_binary L op R wh err =
     (if op = plus_sym \<or> op = minus_sym \<or> op = asterisk_sym \<or> op = slash_sym \<or> op = power_sym
      then
        (if \<not> (is_num L \<and> is_num R) then (type_unknown, flag_tok wh 116 err)
         else if L = type_real \<or> R = type_real then (type_real, err)
         else (type_integer, err))
      else if op = and_sym \<or> op = or_sym
      then
        (if is_bool L \<and> is_bool R then (type_boolean, err)
         else (type_unknown, flag_tok wh 120 err))
      else if op = ampersand_sym
      then
        (if L = type_unknown \<or> R = type_unknown then (type_string, err)
         else if L = type_string \<and> R = type_string then (type_string, err)
         else if (L = type_string \<and> is_promotable R) \<or> (R = type_string \<and> is_promotable L)
                 \<or> (is_promotable L \<and> is_promotable R)
         then (type_string, err)
         else (type_unknown, flag_tok wh 115 err))
      else if op = equals_sym \<or> op = not_equals_sym \<or> op = less_than_sym
              \<or> op = less_or_equal_sym \<or> op = greater_than_sym \<or> op = greater_or_equal_sym
      then
        (let ok = (is_num L \<and> is_num R)
                  \<or> (is_str L \<and> is_str R \<and> (op = equals_sym \<or> op = not_equals_sym))
                  \<or> (is_bool L \<and> is_bool R \<and> (op = equals_sym \<or> op = not_equals_sym))
         in if ok then (type_boolean, err) else (type_unknown, flag_tok wh 114 err))
      else (type_unknown, err))"

definition check_unary ::
  "symbol_type \<Rightarrow> lille_ty \<Rightarrow> token option \<Rightarrow> error_handler \<Rightarrow> lille_ty \<times> error_handler" where
  "check_unary op T wh err =
     (if op = not_sym
      then (if is_bool T then (type_boolean, err) else (type_unknown, flag_tok wh 120 err))
      else if op = plus_sym \<or> op = minus_sym
      then (if is_num T then (T, err) else (type_unknown, flag_tok wh 116 err))
      else (type_unknown, err))"

definition require_boolean :: "lille_ty \<Rightarrow> token option \<Rightarrow> error_handler \<Rightarrow> error_handler" where
  "require_boolean T wh err =
     (if \<not> is_bool T then (if T \<noteq> type_unknown then flag_tok wh 120 err else err) else err)"

section \<open>Text output\<close>

text \<open>
  \<^verbatim>\<open>std::to_string\<close> and \<^verbatim>\<open>operator<<\<close> on an integer print its decimal digits;
  \<^verbatim>\<open>left << setw(w)\<close> pads a shorter field with blanks on the right and never cuts
  a longer one.
\<close>

definition digit_char :: "nat \<Rightarrow> char" where
  "digit_char d = ''0123456789'' ! d"

fun nat_to_string :: "nat \<Rightarrow> string" where
  "nat_to_string n =
     (if n < 10 then [digit_char n] else nat_to_string (n div 10) @ [digit_char (n mod 10)])"

declare nat_to_string.simps [simp del]

definition to_string :: "int \<Rightarrow> string" where
  "to_string i = (if i < 0 then CHR ''-'' # nat_to_string (nat (- i)) else nat_to_string (nat i))"

definition setw_left :: "nat \<Rightarrow> string \<Rightarrow> string" where
  "setw_left w s = s @ replicate (w - length s) CHR '' ''"

definition endl :: string where
  "endl = [CHR 0x0A]"

section \<open>The symbol table dump (id\_table.cpp)\<close>

definition ty_name :: "lille_ty \<Rightarrow> string" where
  "ty_name t =
     (case t of
        type_integer \<Rightarrow> ''INTEGER''
      | type_real \<Rightarrow> ''REAL''
      | type_string \<Rightarrow> ''STRING''
      | type_boolean \<Rightarrow> ''BOOLEAN''
      | type_prog \<Rightarrow> ''PROG''
      | _ \<Rightarrow> ''UNKNOWN'')"

definition kind_name :: "int \<Rightarrow> string" where
  "kind_name k =
     (if k = 1 then ''VARIABLE''
      else if k = 2 then ''CONSTANT''
      else if k = 3 then ''PROCEDURE''
      else if k = 4 then ''FUNCTION''
      else if k = 5 then ''PROG''
      else ''UNKNOWN'')"

text \<open>
  One record's line. The source sets \<^verbatim>\<open>line\<close>, \<^verbatim>\<open>pos\<close>, \<^verbatim>\<open>offset\<close>, \<^verbatim>\<open>trace\<close> and
  \<^verbatim>\<open>params\<close> to 0 and computes the kind label as \<^verbatim>\<open>kind_name(0)\<close>.
\<close>

definition dump_record :: "nat \<Rightarrow> id_record \<Rightarrow> string" where
  "dump_record lvl r =
     (let line = 0; pos = 0; offset = 0; trace = 0; params = 0;
          kindLabel = kind_name 0;
          typeLabel = ty_name (rec_ty r)
      in ''Token Name: '' @ rec_name r
         @ '' Line No: '' @ to_string line
         @ '' Position: '' @ to_string pos
         @ ''  Type: '' @ typeLabel
         @ ''  Kind: '' @ kindLabel
         @ ''  Level: '' @ to_string (int lvl)
         @ ''  Offset: '' @ to_string offset
         @ ''  Trace?: '' @ to_string trace
         @ ''  #params: '' @ to_string params
         @ endl)"

definition dump_scope :: "nat \<Rightarrow> scope \<Rightarrow> string" where
  "dump_scope lvl sc =
     ''~~~~~~~~~~~~~~~~~~~~~~~~~~~~~~~~~~~~~'' @ endl
     @ ''scope level '' @ nat_to_string lvl @ endl
     @ ''---------------------'' @ endl
     @ concat (map (\<lambda>(k, r). dump_record lvl r) sc)"

text \<open>\<^verbatim>\<open>dump\<close> returns the text it writes to \<^verbatim>\<open>out\<close>, level 0 first.\<close>

definition dump :: "id_table \<Rightarrow> string" where
  "dump scopes = concat (map (\<lambda>lvl. dump_scope lvl (scopes ! lvl)) [0 ..< length scopes])"

section \<open>The code generator (code\_gen.h, code\_gen.cpp)\<close>

record instruction =
  opcode :: string
  operand1 :: int
  operand2 :: string
  remark :: string

text \<open>
  The fields of \<^verbatim>\<open>code_gen\<close> (\<^verbatim>\<open>Instruction::comment\<close> is the field \<open>remark\<close>). The
  two maps are \<^verbatim>\<open>std::map\<close>s read by \<^verbatim>\<open>find\<close> and written by \<^verbatim>\<open>operator[]\<close>. The
  output stream is not a field: \<^verbatim>\<open>finalize\<close> returns what it writes.
\<close>

record code_gen =
  output_filename :: string
  instruction_count :: int
  label_counter :: int
  label_addresses :: "string \<rightharpoonup> int"
  var_info :: "string \<rightharpoonup> int \<times> int"
  level_offsets :: "int list"
  instructions :: "instruction list"

definition code_gen_init :: "string \<Rightarrow> code_gen" where
  "code_gen_init filename =
     \<lparr>output_filename = filename, instruction_count = 1, label_counter = 0,
      label_addresses = Map.empty, var_info = Map.empty,
      level_offsets = [0, 0], instructions = []\<rparr>"

definition push_instruction :: "string \<Rightarrow> int \<Rightarrow> string \<Rightarrow> string \<Rightarrow> code_gen \<Rightarrow> code_gen" where
  "push_instruction op l a2 c cg =
     cg\<lparr>instructions := instructions cg @ [\<lparr>opcode = op, operand1 = l, operand2 = a2, remark = c\<rparr>],
        instruction_count := instruction_count cg + 1\<rparr>"

text \<open>
  The four \<^verbatim>\<open>emit\<close> helpers: an integer operand, a label operand (the second overload of
  \<^verbatim>\<open>emit\<close>, here \<open>emit_label\<close>), a string operand and a real operand.
\<close>

definition emit :: "string \<Rightarrow> int \<Rightarrow> int \<Rightarrow> string \<Rightarrow> code_gen \<Rightarrow> code_gen" where
  "emit op l a c = push_instruction op l (to_string a) c"

definition emit_label :: "string \<Rightarrow> int \<Rightarrow> string \<Rightarrow> string \<Rightarrow> code_gen \<Rightarrow> code_gen" where
  "emit_label op l label c = push_instruction op l label c"

definition emit_string :: "string \<Rightarrow> int \<Rightarrow> string \<Rightarrow> string \<Rightarrow> code_gen \<Rightarrow> code_gen" where
  "emit_string op l str c = push_instruction op l ([CHR 0x27] @ str @ [CHR 0x27]) c"

definition emit_real :: "string \<Rightarrow> int \<Rightarrow> cfloat \<Rightarrow> string \<Rightarrow> code_gen \<Rightarrow> code_gen" where
  "emit_real op l val c = push_instruction op l val c"

definition gen_new_label :: "code_gen \<Rightarrow> string \<times> code_gen" where
  "gen_new_label cg =
     (''L'' @ to_string (label_counter cg), cg\<lparr>label_counter := label_counter cg + 1\<rparr>)"

definition gen_label :: "string \<Rightarrow> code_gen \<Rightarrow> code_gen" where
  "gen_label label cg = cg\<lparr>label_addresses := (label_addresses cg)(label \<mapsto> instruction_count cg)\<rparr>"

definition gen_program_start :: "string \<Rightarrow> code_gen \<Rightarrow> code_gen" where
  "gen_program_start n cg =
     (emit ''OPR'' 0 1 ''Function value return.''
     (emit ''OPR'' 0 28 ''Convert a real to a string.''
     (emit ''LDV'' 0 0 ''Load argument.''
     (emit ''OPR'' 0 1 ''Function value return.''
     (emit ''OPR'' 0 27 ''Convert an integer to a string.''
     (emit ''LDV'' 0 0 ''Load argument.''
     (emit ''OPR'' 0 1 ''Function value return.''
     (emit ''OPR'' 0 26 ''Convert a real to an integer.''
     (emit ''LDV'' 0 0 ''Load argument.''
     (emit ''OPR'' 0 1 ''Function value return.''
     (emit ''OPR'' 0 25 ''Convert an integer to a real.''
     (emit ''LDV'' 0 0 ''Load argument.''
     (emit ''JMP'' 0 14 ''Jump over the predefined functions.'' cg)))))))))))))"

definition gen_program_body_start :: "code_gen \<Rightarrow> code_gen" where
  "gen_program_body_start cg =
     (let var_count = (if length (level_offsets cg) > 1 then level_offsets cg ! 1 else 0);
          cg1 = (if var_count > 0
                 then emit ''INC'' 0 var_count ''Reserve space for local variables'' cg else cg);
          (body_label, cg2) = gen_new_label cg1;
          cg3 = emit_label ''JMP'' 0 body_label ''Jump to start of statements or block.'' cg2;
          cg4 = emit ''INC'' 0 var_count ''Reserve space for declared variables and constants.'' cg3
      in gen_label body_label cg4)"

definition gen_program_end :: "code_gen \<Rightarrow> code_gen" where
  "gen_program_end = emit ''JMP'' 0 0 ''Halt program.''"

definition gen_call_start :: "code_gen \<Rightarrow> code_gen" where
  "gen_call_start = emit ''MST'' 1 0 ''Mark stack.''"

definition gen_function_call :: "string \<Rightarrow> int \<Rightarrow> int \<Rightarrow> code_gen \<Rightarrow> code_gen" where
  "gen_function_call n arg_count current_level =
     (if n = ''INT2REAL'' then emit ''CAL'' 1 2 ''Function call: int2real''
      else if n = ''REAL2INT'' then emit ''CAL'' 1 5 ''Function call: real2int''
      else if n = ''INT2STRING'' then emit ''CAL'' 1 8 ''Function call: int2string''
      else if n = ''REAL2STRING'' then emit ''CAL'' 1 11 ''Function call: real2string''
      else emit ''CAL'' 1 0 (''Function call: '' @ n))"

definition gen_load :: "string \<Rightarrow> int \<Rightarrow> code_gen \<Rightarrow> code_gen" where
  "gen_load n current_level cg =
     (case var_info cg n of
        Some (var_level, offset) \<Rightarrow>
          emit ''LDV'' (current_level - var_level) offset ''Load variable or constant.'' cg
      | None \<Rightarrow> emit ''LDV'' 0 0 (''Load variable: '' @ n) cg)"

definition gen_load_int :: "int \<Rightarrow> code_gen \<Rightarrow> code_gen" where
  "gen_load_int v = emit ''LCI'' 0 v ''Load integer constant.''"

definition gen_load_real :: "cfloat \<Rightarrow> code_gen \<Rightarrow> code_gen" where
  "gen_load_real v = emit_real ''LCR'' 0 v ''Load real constant.''"

definition gen_load_string :: "string \<Rightarrow> code_gen \<Rightarrow> code_gen" where
  "gen_load_string v = emit_string ''LCS'' 0 v ''Load string value.''"

definition gen_load_bool :: "bool \<Rightarrow> code_gen \<Rightarrow> code_gen" where
  "gen_load_bool v = (if v then emit ''OPR'' 0 17 ''Load true.'' else emit ''OPR'' 0 18 ''Load false.'')"

definition gen_add :: "code_gen \<Rightarrow> code_gen" where
  "gen_add = emit ''OPR'' 0 3 ''Add arithmetic expressions together.''"

definition gen_subtract :: "code_gen \<Rightarrow> code_gen" where
  "gen_subtract = emit ''OPR'' 0 4 ''Subtract arithmetic expressions.''"

definition gen_multiply :: "code_gen \<Rightarrow> code_gen" where
  "gen_multiply = emit ''OPR'' 0 5 ''Multiply arithmetic expressions.''"

definition gen_divide :: "code_gen \<Rightarrow> code_gen" where
  "gen_divide = emit ''OPR'' 0 6 ''Divide arithmetic expressions.''"

definition gen_power :: "code_gen \<Rightarrow> code_gen" where
  "gen_power = emit ''OPR'' 0 7 ''Exponentiation.''"

definition gen_negate :: "code_gen \<Rightarrow> code_gen" where
  "gen_negate = emit ''OPR'' 0 2 ''Negate.''"

definition gen_odd :: "code_gen \<Rightarrow> code_gen" where
  "gen_odd = emit ''OPR'' 0 9 ''Test if odd.''"

definition gen_comparison :: "symbol_type \<Rightarrow> code_gen \<Rightarrow> code_gen" where
  "gen_comparison op =
     (if op = equals_sym then emit ''OPR'' 0 10 ''Test for equality.''
      else if op = not_equals_sym then emit ''OPR'' 0 11 ''Test for inequality.''
      else if op = less_than_sym then emit ''OPR'' 0 12 ''Test less than.''
      else if op = greater_or_equal_sym then emit ''OPR'' 0 13 ''Test greater than or equal.''
      else if op = greater_than_sym then emit ''OPR'' 0 14 ''Test greater than.''
      else if op = less_or_equal_sym then emit ''OPR'' 0 15 ''Test less than or equal.''
      else id)"

definition gen_and :: "code_gen \<Rightarrow> code_gen" where
  "gen_and = emit ''OPR'' 0 29 ''Logical and.''"

definition gen_or :: "code_gen \<Rightarrow> code_gen" where
  "gen_or = emit ''OPR'' 0 30 ''Logical or.''"

definition gen_not :: "code_gen \<Rightarrow> code_gen" where
  "gen_not = emit ''OPR'' 0 16 ''Logical complement (not).''"

definition gen_concat :: "code_gen \<Rightarrow> code_gen" where
  "gen_concat = emit ''OPR'' 0 8 ''String concatenation.''"

definition gen_jump :: "string \<Rightarrow> code_gen \<Rightarrow> code_gen" where
  "gen_jump label = emit_label ''JMP'' 0 label ''Jump.''"

definition gen_jump_false :: "string \<Rightarrow> code_gen \<Rightarrow> code_gen" where
  "gen_jump_false label = emit_label ''JIF'' 0 label ''Jump if false.''"

subsection \<open>Finalization\<close>

definition isdigit :: "char \<Rightarrow> bool" where
  "isdigit c = (c \<in> set ''0123456789'')"

text \<open>The test \<^verbatim>\<open>finalize\<close> applies to a second operand: an \<^verbatim>\<open>L\<close>, then digits only.\<close>

definition is_label :: "string \<Rightarrow> bool" where
  "is_label op2 = (case op2 of [] \<Rightarrow> False | c # cs \<Rightarrow> c = CHR ''L'' \<and> list_all isdigit cs)"

definition resolve_operand :: "(string \<rightharpoonup> int) \<Rightarrow> string \<Rightarrow> string" where
  "resolve_operand la op2 =
     (if is_label op2
      then (case la op2 of Some a \<Rightarrow> to_string a | None \<Rightarrow> op2)
      else op2)"

text \<open>One output record, without its end of line.\<close>

definition format_record :: "instruction \<Rightarrow> string \<Rightarrow> int \<Rightarrow> string" where
  "format_record instr op2 instr_num =
     setw_left 5 (opcode instr) @ setw_left 6 (to_string (operand1 instr)) @ setw_left 13 op2
     @ ''('' @ to_string instr_num @ '') '' @ remark instr"

fun finalize_loop :: "(string \<rightharpoonup> int) \<Rightarrow> int \<Rightarrow> instruction list \<Rightarrow> string list" where
  "finalize_loop la instr_num [] = []"
| "finalize_loop la instr_num (instr # rest) =
     format_record instr (resolve_operand la (operand2 instr)) instr_num
       # finalize_loop la (instr_num + 1) rest"

text \<open>
  \<^verbatim>\<open>finalize\<close> opens the output file (\<open>can_open\<close> says whether the open succeeds),
  throws when it cannot, and otherwise writes one record per instruction. The result
  is the exception, or the records of the file in order.
\<close>

definition finalize :: "bool \<Rightarrow> code_gen \<Rightarrow> lille_exception + string list" where
  "finalize can_open cg =
     (if \<not> can_open
      then Inl (Lille_exception (''Unable to open code file: '' @ output_filename cg))
      else Inr (finalize_loop (label_addresses cg) 1 (instructions cg)))"

section \<open>The driver (compiler.cpp)\<close>

text \<open>
  What \<^verbatim>\<open>main\<close> does once \<^verbatim>\<open>parse_program\<close> has returned (step 7 of the source), given
  the sink's error count and the code generator's state: the exit code, the
  instruction file this run has written (\<open>None\<close> when none was opened), whether
  \<^verbatim>\<open>code->finalize()\<close> was called, and the lines sent to standard output. A
  \<^verbatim>\<open>lille_exception\<close> ends the run with exit code 1. The listing and the timing
  report are not modelled.
\<close>

record run_result =
  exit_code :: int
  code_file :: "string list option"
  finalize_called :: bool
  cout :: "string list"

definition main_results :: "nat \<Rightarrow> code_gen \<Rightarrow> bool \<Rightarrow> run_result" where
  "main_results error_count code can_open =
     (if error_count = 0
      then (case finalize can_open code of
              Inr recs \<Rightarrow>
                \<lparr>exit_code = 0, code_file = Some recs, finalize_called = True,
                 cout = [''Code generation successful: '' @ output_filename code]\<rparr>
            | Inl e \<Rightarrow>
                \<lparr>exit_code = 1, code_file = None, finalize_called = True, cout = []\<rparr>)
      else \<lparr>exit_code = 0, code_file = None, finalize_called = False,
            cout = [''Code generation skipped due to errors.'']\<rparr>)"

section \<open>The parser (parser.h, parser.cpp)\<close>

text \<open>
  The parser's fields. The scanner behind \<^verbatim>\<open>sc->get_token()\<close> is represented by what
  it returns: the tokens \<open>sc_tokens\<close> still to come, then an end-of-program token at
  (\<open>sc_eop_line\<close>, \<open>sc_eop_pos\<close>) at every later call. \<open>p_err\<close> is the sink as the
  parser and the analyzer fill it (the scanner's own diagnostics are left out),
  \<open>p_tab\<close> the analyzer's symbol table, \<open>p_cg\<close> the code generator, which \<^verbatim>\<open>main\<close>
  always supplies. \<^verbatim>\<open>prev\<close> is a pointer, null until the first \<^verbatim>\<open>advance\<close>.
\<close>

record parser =
  look :: token
  prev :: "token option"
  recovering :: bool
  sc_tokens :: "token list"
  sc_eop_line :: int
  sc_eop_pos :: int
  p_err :: error_handler
  p_tab :: id_table
  p_cg :: code_gen
  current_level :: int
  loop_exit_labels :: "string list"

definition sc_get_token :: "parser \<Rightarrow> token \<times> parser" where
  "sc_get_token p =
     (case sc_tokens p of
        [] \<Rightarrow> (new_token end_of_program (sc_eop_line p) (sc_eop_pos p), p)
      | t # ts \<Rightarrow> (t, p\<lparr>sc_tokens := ts\<rparr>))"

definition S :: "parser \<Rightarrow> symbol_type" where
  "S p = tk_sym (look p)"

definition advance :: "parser \<Rightarrow> parser" where
  "advance p = (case sc_get_token p of (t, p1) \<Rightarrow> p1\<lparr>prev := Some (look p), look := t\<rparr>)"

definition accept :: "symbol_type \<Rightarrow> parser \<Rightarrow> bool \<times> parser" where
  "accept s p = (if S p = s then (True, advance p) else (False, p))"

text \<open>The number of \<^verbatim>\<open>advance\<close> calls after which the parser is sure to look at end of program.\<close>

definition tokens_left :: "parser \<Rightarrow> nat" where
  "tokens_left p = (if S p = end_of_program then 0 else Suc (length (sc_tokens p)))"

lemma tokens_left_advance: "S p \<noteq> end_of_program \<Longrightarrow> tokens_left (advance p) < tokens_left p"
  by (cases "sc_tokens p")
    (simp_all add: tokens_left_def advance_def sc_get_token_def S_def new_token_def)

text \<open>The skipping loop of \<^verbatim>\<open>expect\<close> in recovery mode.\<close>

function expect_skip :: "symbol_type \<Rightarrow> parser \<Rightarrow> parser" where
  "expect_skip expected p =
     (if S p \<noteq> expected \<and> S p \<noteq> end_of_program then expect_skip expected (advance p) else p)"
  by pat_completeness auto
termination
  by (relation "measure (\<lambda>(e, p). tokens_left p)") (auto simp: tokens_left_advance)

declare expect_skip.simps [simp del]

definition expect :: "symbol_type \<Rightarrow> int \<Rightarrow> parser \<Rightarrow> parser" where
  "expect expected err_no p =
     (if recovering p
      then (let p1 = expect_skip expected p
            in if S p1 = expected then (advance p1)\<lparr>recovering := False\<rparr> else p1)
      else if S p = expected then advance p
      else p\<lparr>p_err := flag_tok (Some (look p)) err_no (p_err p), recovering := True\<rparr>)"

function synchronize :: "symbol_type list \<Rightarrow> parser \<Rightarrow> parser" where
  "synchronize follow p =
     (if S p \<noteq> end_of_program
      then (if S p \<in> set follow then p\<lparr>recovering := False\<rparr>
            else synchronize follow (advance p))
      else p\<lparr>recovering := False\<rparr>)"
  by pat_completeness auto
termination
  by (relation "measure (\<lambda>(f, p). tokens_left p)") (auto simp: tokens_left_advance)

declare synchronize.simps [simp del]

definition flag_here :: "int \<Rightarrow> parser \<Rightarrow> parser" where
  "flag_here code p =
     (if \<not> recovering p
      then p\<lparr>p_err := flag_tok (Some (look p)) code (p_err p), recovering := True\<rparr>
      else p)"

definition flag_prev :: "int \<Rightarrow> parser \<Rightarrow> parser" where
  "flag_prev code p =
     (if \<not> recovering p
      then (case prev p of
              Some t \<Rightarrow> p\<lparr>p_err := flag_pos (tk_line t) (tk_pos t + 1) code (p_err p),
                           recovering := True\<rparr>
            | None \<Rightarrow> p\<lparr>p_err := flag_tok (Some (look p)) code (p_err p), recovering := True\<rparr>)
      else p)"

text \<open>
  A parse is a sequence of calls of the helpers through which the productions read
  tokens and report: these six are the only members of \<^verbatim>\<open>Parser\<close> that touch
  \<^verbatim>\<open>look\<close>, \<^verbatim>\<open>recovering\<close> or call \<^verbatim>\<open>err->flag\<close>.
\<close>

datatype parser_call =
    Advance
  | Accept symbol_type
  | Expect symbol_type int
  | Synchronize "symbol_type list"
  | Flag_here int
  | Flag_prev int

fun run_call :: "parser_call \<Rightarrow> parser \<Rightarrow> parser" where
  "run_call Advance p = advance p"
| "run_call (Accept s) p = snd (accept s p)"
| "run_call (Expect s n) p = expect s n p"
| "run_call (Synchronize f) p = synchronize f p"
| "run_call (Flag_here n) p = flag_here n p"
| "run_call (Flag_prev n) p = flag_prev n p"

text \<open>The diagnostics reported by those calls of a sequence that start while \<^verbatim>\<open>recovering\<close> is true.\<close>

fun reported_while_recovering :: "parser_call list \<Rightarrow> parser \<Rightarrow> nat" where
  "reported_while_recovering [] p = 0"
| "reported_while_recovering (c # cs) p =
     (if recovering p then length (p_err (run_call c p)) - length (p_err p) else 0)
       + reported_while_recovering cs (run_call c p)"

text \<open>
  The constructor: \<^verbatim>\<open>look\<close> is primed with the first token. \<^verbatim>\<open>main\<close> builds the parser
  over a table holding the builtins and a fresh code generator.
\<close>

definition parser_init :: "token list \<Rightarrow> int \<Rightarrow> int \<Rightarrow> id_table \<Rightarrow> code_gen \<Rightarrow> parser" where
  "parser_init toks el ep t c =
     \<lparr>look = (case toks of [] \<Rightarrow> new_token end_of_program el ep | x # xs \<Rightarrow> x),
      prev = None, recovering = False,
      sc_tokens = (case toks of [] \<Rightarrow> [] | x # xs \<Rightarrow> xs),
      sc_eop_line = el, sc_eop_pos = ep, p_err = [], p_tab = t, p_cg = c,
      current_level = 0, loop_exit_labels = []\<rparr>"

subsection \<open>Expressions\<close>

text \<open>
  The expression productions call one another, so each takes a bound on the depth of
  the calls still allowed and returns \<open>None\<close> when it is used up. The loops of
  \<^verbatim>\<open>simple_expr\<close>, \<^verbatim>\<open>term\<close> and of the argument list are the functions
  \<open>simple_expr_loop\<close>, \<open>term_loop\<close> and \<open>primary_args\<close>; \<^verbatim>\<open>Parser::term\<close> is
  \<open>term_prod\<close>.
\<close>

definition with_cg :: "(code_gen \<Rightarrow> code_gen) \<Rightarrow> parser \<Rightarrow> parser" where
  "with_cg f p = p\<lparr>p_cg := f (p_cg p)\<rparr>"

definition sem_check_binary ::
  "lille_ty \<Rightarrow> symbol_type \<Rightarrow> lille_ty \<Rightarrow> token option \<Rightarrow> parser \<Rightarrow> lille_ty \<times> parser" where
  "sem_check_binary L op R wh p =
     (case check_binary L op R wh (p_err p) of (t, e) \<Rightarrow> (t, p\<lparr>p_err := e\<rparr>))"

definition sem_check_unary ::
  "symbol_type \<Rightarrow> lille_ty \<Rightarrow> token option \<Rightarrow> parser \<Rightarrow> lille_ty \<times> parser" where
  "sem_check_unary op T wh p =
     (case check_unary op T wh (p_err p) of (t, e) \<Rightarrow> (t, p\<lparr>p_err := e\<rparr>))"

definition sem_lookup_type :: "string \<Rightarrow> token option \<Rightarrow> parser \<Rightarrow> lille_ty \<times> parser" where
  "sem_lookup_type n wh p =
     (case lookup_type n wh (p_tab p) (p_err p) of (t, e) \<Rightarrow> (t, p\<lparr>p_err := e\<rparr>))"

function (sequential) expr :: "nat \<Rightarrow> parser \<Rightarrow> (lille_ty \<times> parser) option"
  and simple_expr :: "nat \<Rightarrow> parser \<Rightarrow> (lille_ty \<times> parser) option"
  and simple_expr_loop :: "nat \<Rightarrow> lille_ty \<Rightarrow> parser \<Rightarrow> (lille_ty \<times> parser) option"
  and term_prod :: "nat \<Rightarrow> parser \<Rightarrow> (lille_ty \<times> parser) option"
  and term_loop :: "nat \<Rightarrow> lille_ty \<Rightarrow> parser \<Rightarrow> (lille_ty \<times> parser) option"
  and factor :: "nat \<Rightarrow> parser \<Rightarrow> (lille_ty \<times> parser) option"
  and primary :: "nat \<Rightarrow> parser \<Rightarrow> (lille_ty \<times> parser) option"
  and primary_args :: "nat \<Rightarrow> int \<Rightarrow> parser \<Rightarrow> (int \<times> parser) option"
where
  "expr 0 p = None"
| "expr (Suc d) p =
     (case simple_expr d p of
        None \<Rightarrow> None
      | Some (left, p1) \<Rightarrow>
          if S p1 = equals_sym \<or> S p1 = not_equals_sym \<or> S p1 = less_than_sym
             \<or> S p1 = less_or_equal_sym \<or> S p1 = greater_than_sym \<or> S p1 = greater_or_equal_sym
          then (let op_tok = look p1; op = S p1
                in case simple_expr d (advance p1) of
                     None \<Rightarrow> None
                   | Some (right, p2) \<Rightarrow>
                       Some (sem_check_binary left op right (Some op_tok)
                               (with_cg (gen_comparison op) p2)))
          else Some (left, p1))"
| "simple_expr 0 p = None"
| "simple_expr (Suc d) p =
     (let had_unary = (S p = plus_sym \<or> S p = minus_sym);
          unary_op = (if had_unary then S p else nul);
          p1 = (if had_unary then advance p else p)
      in case term_prod d p1 of
           None \<Rightarrow> None
         | Some (result, p2) \<Rightarrow>
             if had_unary
             then (case sem_check_unary unary_op result (prev p2) p2 of
                     (result', p3) \<Rightarrow>
                       simple_expr_loop d result'
                         (if unary_op = minus_sym then with_cg gen_negate p3 else p3))
             else simple_expr_loop d result p2)"
| "simple_expr_loop 0 result p = None"
| "simple_expr_loop (Suc d) result p =
     (if S p = plus_sym \<or> S p = minus_sym \<or> S p = or_sym \<or> S p = ampersand_sym
      then (let op_tok = look p; op = S p
            in case term_prod d (advance p) of
                 None \<Rightarrow> None
               | Some (right, p2) \<Rightarrow>
                   (let p3 = (if op = plus_sym then with_cg gen_add p2
                              else if op = minus_sym then with_cg gen_subtract p2
                              else if op = or_sym then with_cg gen_or p2
                              else if op = ampersand_sym then with_cg gen_concat p2
                              else p2)
                    in case sem_check_binary result op right (Some op_tok) p3 of
                         (result', p4) \<Rightarrow> simple_expr_loop d result' p4))
      else Some (result, p))"
| "term_prod 0 p = None"
| "term_prod (Suc d) p =
     (case factor d p of
        None \<Rightarrow> None
      | Some (result, p1) \<Rightarrow> term_loop d result p1)"
| "term_loop 0 result p = None"
| "term_loop (Suc d) result p =
     (if S p = asterisk_sym \<or> S p = slash_sym \<or> S p = and_sym
      then (let op_tok = look p; op = S p
            in case factor d (advance p) of
                 None \<Rightarrow> None
               | Some (right, p2) \<Rightarrow>
                   (let p3 = (if op = asterisk_sym then with_cg gen_multiply p2
                              else if op = slash_sym then with_cg gen_divide p2
                              else if op = and_sym then with_cg gen_and p2
                              else p2)
                    in case sem_check_binary result op right (Some op_tok) p3 of
                         (result', p4) \<Rightarrow> term_loop d result' p4))
      else Some (result, p))"
| "factor 0 p = None"
| "factor (Suc d) p =
     (if S p = plus_sym \<or> S p = minus_sym \<or> S p = not_sym \<or> S p = odd_sym
      then (let op = S p
            in case primary d (advance p) of
                 None \<Rightarrow> None
               | Some (base, p2) \<Rightarrow>
                   if op = odd_sym then Some (type_boolean, with_cg gen_odd p2)
                   else if op = not_sym
                   then (let p3 = with_cg gen_not p2
                         in Some (sem_check_unary op base (prev p3) p3))
                   else (let p3 = (if op = minus_sym then with_cg gen_negate p2 else p2)
                         in Some (sem_check_unary op base (prev p3) p3)))
      else (case primary d p of
              None \<Rightarrow> None
            | Some (base, p1) \<Rightarrow>
                if S p1 = power_sym
                then (let op_tok = look p1
                      in case primary d (advance p1) of
                           None \<Rightarrow> None
                         | Some (ex, p3) \<Rightarrow>
                             Some (sem_check_binary base power_sym ex (Some op_tok)
                                     (with_cg gen_power p3)))
                else Some (base, p1)))"
| "primary 0 p = None"
| "primary (Suc d) p =
     (if S p = identifier_sym
      then (let name = tk_identifier_value (look p); id_tok = look p
            in case accept left_paren_sym (advance p) of
                 (True, p2) \<Rightarrow>
                   (let p3 = with_cg gen_call_start p2
                    in case (if S p3 \<noteq> right_paren_sym
                             then (case expr d p3 of
                                     None \<Rightarrow> None
                                   | Some (t, p4) \<Rightarrow> primary_args d 1 p4)
                             else Some (0, p3)) of
                         None \<Rightarrow> None
                       | Some (arg_count, p5) \<Rightarrow>
                           (let p6 = expect right_paren_sym (error_code right_paren_sym) p5;
                                p7 = with_cg (gen_function_call name arg_count (current_level p6)) p6
                            in Some (sem_lookup_type name (Some id_tok) p7)))
               | (False, p2) \<Rightarrow>
                   Some (sem_lookup_type name (Some id_tok)
                           (with_cg (gen_load name (current_level p2)) p2)))
      else if S p = integer
      then (let val = tk_integer_value (look p)
            in Some (type_integer, with_cg (gen_load_int val) (advance p)))
      else if S p = real_num
      then (let val = tk_real_value (look p)
            in Some (type_real, with_cg (gen_load_real val) (advance p)))
      else if S p = strng
      then (let val = tk_string_value (look p)
            in Some (type_string, with_cg (gen_load_string val) (advance p)))
      else if S p = true_sym
      then Some (type_boolean, with_cg (gen_load_bool True) (advance p))
      else if S p = false_sym
      then Some (type_boolean, with_cg (gen_load_bool False) (advance p))
      else if S p = left_paren_sym
      then (case expr d (advance p) of
              None \<Rightarrow> None
            | Some (result, p2) \<Rightarrow>
                Some (result, expect right_paren_sym (error_code right_paren_sym) p2))
      else if S p = semicolon_sym \<or> S p = right_paren_sym \<or> S p = end_sym \<or> S p = else_sym
              \<or> S p = elsif_sym \<or> S p = then_sym \<or> S p = end_of_program
      then Some (type_unknown, p)
      else Some (type_unknown, advance (flag_here (error_code identifier_sym) p)))"
| "primary_args 0 arg_count p = None"
| "primary_args (Suc d) arg_count p =
     (case accept comma_sym p of
        (True, p1) \<Rightarrow>
          (case expr d p1 of
             None \<Rightarrow> None
           | Some (t, p2) \<Rightarrow> primary_args d (arg_count + 1) p2)
      | (False, p1) \<Rightarrow> Some (arg_count, p1))"
  by pat_completeness auto
termination
  by (relation "measure (\<lambda>x. case x of
        Inl (Inl (Inl (d, p))) \<Rightarrow> d
      | Inl (Inl (Inr (d, p))) \<Rightarrow> d
      | Inl (Inr (Inl (d, r, p))) \<Rightarrow> d
      | Inl (Inr (Inr (d, p))) \<Rightarrow> d
      | Inr (Inl (Inl (d, r, p))) \<Rightarrow> d
      | Inr (Inl (Inr (d, p))) \<Rightarrow> d
      | Inr (Inr (Inl (d, p))) \<Rightarrow> d
      | Inr (Inr (Inr (d, a, p))) \<Rightarrow> d)") (simp_all (no_asm))

section \<open>The scanner (scanner.h, scanner.cpp)\<close>

text \<open>
  The scanner's fields. \<open>source_file\<close> holds the lines of the source that
  \<^verbatim>\<open>std::getline\<close> has not delivered yet (the text of the file split at its newline
  characters, so at least one line for a file that exists); the stream's
  \<^verbatim>\<open>eof()\<close> is true once the last of them has been read. \<open>error\<close> is the sink,
  which \<^verbatim>\<open>main\<close> always supplies.
\<close>

record scanner =
  source_file :: "string list"
  pos_on_line :: int
  line_number :: int
  eoln_flag :: bool
  input_buffer :: string
  next_char :: char
  eof_flag :: bool
  current_symbol :: symbol_type
  current_token :: token
  current_line_number :: int
  current_pos_on_line :: int
  current_integer_value :: int
  current_real_value :: cfloat
  current_string_value :: string
  current_identifier_name :: string
  error :: error_handler

definition end_marker :: char where
  "end_marker = CHR 0x07"

definition get_line :: "scanner \<Rightarrow> scanner" where
  "get_line s =
     (case source_file s of
        l # ls \<Rightarrow> s\<lparr>input_buffer := l, source_file := ls, line_number := line_number s + 1\<rparr>
      | [] \<Rightarrow> s\<lparr>eof_flag := True, input_buffer := []\<rparr>)"

definition fill_buffer :: "scanner \<Rightarrow> scanner" where
  "fill_buffer s = (get_line (s\<lparr>pos_on_line := - 1\<rparr>))\<lparr>eoln_flag := True, next_char := end_marker\<rparr>"

definition get_char :: "scanner \<Rightarrow> scanner" where
  "get_char s =
     (if pos_on_line s + 1 < int (length (input_buffer s))
      then s\<lparr>pos_on_line := pos_on_line s + 1,
             next_char := input_buffer s ! nat (pos_on_line s + 1),
             eoln_flag := False\<rparr>
      else fill_buffer s)"

definition following_char :: "scanner \<Rightarrow> char" where
  "following_char s =
     (if \<not> eof_flag s \<and> pos_on_line s + 1 < int (length (input_buffer s))
      then input_buffer s ! nat (pos_on_line s + 1)
      else end_marker)"

text \<open>
  The constructor: the fields' initial values, then \<^verbatim>\<open>get_line\<close> primes the buffer.
  \<^verbatim>\<open>current_token\<close> starts as a default token.
\<close>

definition scanner_init :: "string list \<Rightarrow> scanner" where
  "scanner_init src =
     get_line
       \<lparr>source_file = src, pos_on_line = - 1, line_number = 0, eoln_flag = True,
        input_buffer = [], next_char = end_marker, eof_flag = False,
        current_symbol = nul, current_token = new_token nul 0 0,
        current_line_number = 0, current_pos_on_line = 0, current_integer_value = 0,
        current_real_value = ''0'', current_string_value = [], current_identifier_name = [],
        error = []\<rparr>"

text \<open>
  The character tests. \<^verbatim>\<open>next_char <= ' '\<close> compares a plain \<^verbatim>\<open>char\<close>, which is
  signed for the compiler the sources name (g++ on x86): the bytes from 128 up are
  negative. \<^verbatim>\<open>isalpha\<close>, \<^verbatim>\<open>isdigit\<close> and \<^verbatim>\<open>toupper\<close> are those of the C locale.
\<close>

definition le_space :: "char \<Rightarrow> bool" where
  "le_space c = ((of_char c :: nat) \<le> 32 \<or> 128 \<le> (of_char c :: nat))"

definition isalpha :: "char \<Rightarrow> bool" where
  "isalpha c = (c \<in> set ''ABCDEFGHIJKLMNOPQRSTUVWXYZabcdefghijklmnopqrstuvwxyz'')"

definition toupper :: "char \<Rightarrow> char" where
  "toupper c =
     (if c \<in> set ''abcdefghijklmnopqrstuvwxyz'' then char_of ((of_char c :: nat) - 32) else c)"

text \<open>What a loop that stops at end of file still has to read, counted in characters.\<close>

definition chars_left :: "scanner \<Rightarrow> nat" where
  "chars_left s =
     (if eof_flag s then 0
      else Suc (sum_list (map (\<lambda>l. length l + 2) (source_file s))
                + nat (int (length (input_buffer s)) - pos_on_line s)))"

lemma chars_left_fill_buffer: "\<not> eof_flag s \<Longrightarrow> chars_left (fill_buffer s) < chars_left s"
  by (cases "source_file s") (simp_all add: chars_left_def fill_buffer_def get_line_def)

lemma chars_left_get_char: "\<not> eof_flag s \<Longrightarrow> chars_left (get_char s) < chars_left s"
  by (cases "source_file s")
    (auto simp: chars_left_def get_char_def fill_buffer_def get_line_def)

subsection \<open>Whitespace and comments\<close>

function skip_whitespace :: "scanner \<Rightarrow> scanner" where
  "skip_whitespace s =
     (if \<not> eof_flag s \<and> le_space (next_char s) then skip_whitespace (get_char s) else s)"
  by pat_completeness auto
termination
  by (relation "measure chars_left") (auto simp: chars_left_get_char)

declare skip_whitespace.simps [simp del]

function skip_comment :: "scanner \<Rightarrow> scanner" where
  "skip_comment s =
     (if \<not> eof_flag s \<and> next_char s = CHR ''-'' \<and> following_char s = CHR ''-''
      then skip_comment (fill_buffer s) else s)"
  by pat_completeness auto
termination
  by (relation "measure chars_left") (auto simp: chars_left_fill_buffer)

declare skip_comment.simps [simp del]

lemma chars_left_skip_whitespace: "chars_left (skip_whitespace s) \<le> chars_left s"
proof (induction s rule: skip_whitespace.induct)
  case (1 s)
  show ?case
  proof (cases "\<not> eof_flag s \<and> le_space (next_char s)")
    case True
    with 1 chars_left_get_char [of s] show ?thesis
      by (subst skip_whitespace.simps) simp
  next
    case False
    then show ?thesis by (subst skip_whitespace.simps) auto
  qed
qed

lemma chars_left_skip_comment: "chars_left (skip_comment s) \<le> chars_left s"
proof (induction s rule: skip_comment.induct)
  case (1 s)
  show ?case
  proof (cases "\<not> eof_flag s \<and> next_char s = CHR ''-'' \<and> following_char s = CHR ''-''")
    case True
    with 1 chars_left_fill_buffer [of s] show ?thesis
      by (subst skip_comment.simps) simp
  next
    case False
    then show ?thesis by (subst skip_comment.simps) auto
  qed
qed

lemma chars_left_skip_once:
  assumes "\<not> eof_flag s"
    and "le_space (next_char s) \<or> (next_char s = CHR ''-'' \<and> following_char s = CHR ''-'')"
  shows "chars_left (skip_comment (skip_whitespace s)) < chars_left s"
proof (cases "le_space (next_char s)")
  case True
  with assms(1) have "skip_whitespace s = skip_whitespace (get_char s)"
    by (subst skip_whitespace.simps) simp
  then have "chars_left (skip_whitespace s) < chars_left s"
    using chars_left_skip_whitespace [of "get_char s"] chars_left_get_char [OF assms(1)] by simp
  with chars_left_skip_comment [of "skip_whitespace s"] show ?thesis by simp
next
  case False
  with assms have c: "next_char s = CHR ''-'' \<and> following_char s = CHR ''-''" by simp
  from False have w: "skip_whitespace s = s" by (subst skip_whitespace.simps) simp
  from c assms(1) have "skip_comment s = skip_comment (fill_buffer s)"
    by (subst skip_comment.simps) simp
  then have "chars_left (skip_comment s) < chars_left s"
    using chars_left_skip_comment [of "fill_buffer s"] chars_left_fill_buffer [OF assms(1)] by simp
  with w show ?thesis by simp
qed

text \<open>Step 1 of \<^verbatim>\<open>get_token\<close>: the outer loop over whitespace and comments.\<close>

function skip_separators :: "scanner \<Rightarrow> scanner" where
  "skip_separators s =
     (if \<not> eof_flag s
         \<and> (le_space (next_char s) \<or> (next_char s = CHR ''-'' \<and> following_char s = CHR ''-''))
      then skip_separators (skip_comment (skip_whitespace s)) else s)"
  by pat_completeness auto
termination
  by (relation "measure chars_left") (auto simp: chars_left_skip_once)

declare skip_separators.simps [simp del]

subsection \<open>The sub-scanners\<close>

definition flag_current :: "int \<Rightarrow> scanner \<Rightarrow> scanner" where
  "flag_current code s =
     s\<lparr>error := flag_pos (current_line_number s) (current_pos_on_line s) code (error s)\<rparr>"

text \<open>
  The loops that read one lexeme stop at the end of the line at the latest, since
  \<^verbatim>\<open>fill_buffer\<close> leaves \<^verbatim>\<open>end_marker\<close> in \<^verbatim>\<open>next_char\<close> and sets \<^verbatim>\<open>eoln_flag\<close>.
\<close>

definition line_left :: "(char \<Rightarrow> bool) \<Rightarrow> scanner \<Rightarrow> nat" where
  "line_left P s =
     (if P (next_char s) then Suc (nat (int (length (input_buffer s)) - pos_on_line s)) else 0)"

lemma line_left_get_char:
  "P (next_char s) \<Longrightarrow> \<not> P end_marker \<Longrightarrow> line_left P (get_char s) < line_left P s"
  by (auto simp: line_left_def get_char_def fill_buffer_def)

definition string_left :: "scanner \<Rightarrow> nat" where
  "string_left s =
     (if eof_flag s \<or> eoln_flag s then 0
      else Suc (nat (int (length (input_buffer s)) - pos_on_line s)))"

lemma string_left_get_char:
  "\<not> eof_flag s \<Longrightarrow> \<not> eoln_flag s \<Longrightarrow> string_left (get_char s) < string_left s"
  by (auto simp: string_left_def get_char_def fill_buffer_def)

lemma string_left_get_char2:
  "\<not> eof_flag s \<Longrightarrow> \<not> eoln_flag s \<Longrightarrow> following_char s = CHR 0x22 \<Longrightarrow>
     string_left (get_char (get_char s)) < string_left s"
  by (auto simp: string_left_def get_char_def fill_buffer_def following_char_def end_marker_def
      split: if_splits)

function scan_string_loop :: "scanner \<Rightarrow> bool \<times> scanner" where
  "scan_string_loop s =
     (if \<not> eof_flag s \<and> \<not> eoln_flag s
      then (if next_char s = CHR 0x22
            then (if following_char s = CHR 0x22
                  then scan_string_loop
                         ((get_char (get_char s))
                            \<lparr>current_string_value := current_string_value s @ [CHR 0x22]\<rparr>)
                  else (True, get_char s))
            else scan_string_loop
                   (get_char (s\<lparr>current_string_value := current_string_value s @ [next_char s]\<rparr>)))
      else (False, s))"
  by pat_completeness auto
termination
proof (relation "measure string_left")
  show "wf (measure string_left)" by simp
next
  fix s :: scanner
  assume a: "\<not> eof_flag s \<and> \<not> eoln_flag s" "next_char s = CHR 0x22" "following_char s = CHR 0x22"
  have "string_left ((get_char (get_char s))\<lparr>current_string_value := current_string_value s @ [CHR 0x22]\<rparr>)
          = string_left (get_char (get_char s))"
    by (simp add: string_left_def)
  with string_left_get_char2 [of s] a
  show "((get_char (get_char s))\<lparr>current_string_value := current_string_value s @ [CHR 0x22]\<rparr>, s)
          \<in> measure string_left" by simp
next
  fix s :: scanner
  assume a: "\<not> eof_flag s \<and> \<not> eoln_flag s" "next_char s \<noteq> CHR 0x22"
  let ?s = "s\<lparr>current_string_value := current_string_value s @ [next_char s]\<rparr>"
  have "string_left (get_char ?s) < string_left ?s"
    using a by (intro string_left_get_char) simp_all
  moreover have "string_left ?s = string_left s" by (simp add: string_left_def)
  ultimately show "(get_char ?s, s) \<in> measure string_left" by simp
qed

declare scan_string_loop.simps [simp del]

definition scan_string :: "scanner \<Rightarrow> scanner" where
  "scan_string s =
     (case scan_string_loop (get_char (s\<lparr>current_string_value := []\<rparr>)) of
        (terminated, s1) \<Rightarrow>
          (if \<not> terminated then flag_current (error_code strng) s1 else s1)
            \<lparr>current_symbol := strng\<rparr>)"

definition is_ident_char :: "char \<Rightarrow> bool" where
  "is_ident_char c = (isalpha c \<or> isdigit c \<or> c = CHR ''_'')"

lemma end_marker_not_ident: "\<not> is_ident_char end_marker"
  by (simp add: is_ident_char_def isalpha_def isdigit_def end_marker_def)

lemma end_marker_not_digit: "\<not> isdigit end_marker"
  by (simp add: isdigit_def end_marker_def)

function scan_alpha_loop :: "bool \<Rightarrow> scanner \<Rightarrow> bool \<times> scanner" where
  "scan_alpha_loop malformed_ident s =
     (if is_ident_char (next_char s)
      then scan_alpha_loop
             (malformed_ident \<or> (next_char s = CHR ''_'' \<and> following_char s = CHR ''_''))
             (get_char (s\<lparr>current_identifier_name :=
                             current_identifier_name s @ [toupper (next_char s)]\<rparr>))
      else (malformed_ident, s))"
  by pat_completeness auto
termination
proof (relation "measure (\<lambda>(m, s). line_left is_ident_char s)")
  show "wf (measure (\<lambda>(m, s). line_left is_ident_char s))" by simp
next
  fix malformed_ident :: bool and s :: scanner
  assume a: "is_ident_char (next_char s)"
  let ?s = "s\<lparr>current_identifier_name := current_identifier_name s @ [toupper (next_char s)]\<rparr>"
  have "line_left is_ident_char (get_char ?s) < line_left is_ident_char ?s"
    using a end_marker_not_ident by (intro line_left_get_char) simp_all
  moreover have "line_left is_ident_char ?s = line_left is_ident_char s"
    by (simp add: line_left_def)
  ultimately show
    "((malformed_ident \<or> (next_char s = CHR ''_'' \<and> following_char s = CHR ''_''), get_char ?s),
      (malformed_ident, s)) \<in> measure (\<lambda>(m, s). line_left is_ident_char s)"
    by simp
qed

declare scan_alpha_loop.simps [simp del]

definition reserved_word :: "string \<Rightarrow> symbol_type" where
  "reserved_word w =
     (if w = ''AND'' then and_sym
      else if w = ''BEGIN'' then begin_sym
      else if w = ''BOOLEAN'' then boolean_sym
      else if w = ''CONSTANT'' then constant_sym
      else if w = ''ELSE'' then else_sym
      else if w = ''ELSIF'' then elsif_sym
      else if w = ''END'' then end_sym
      else if w = ''EOF'' then eof_sym
      else if w = ''EXIT'' then exit_sym
      else if w = ''FALSE'' then false_sym
      else if w = ''FOR'' then for_sym
      else if w = ''FUNCTION'' then function_sym
      else if w = ''IF'' then if_sym
      else if w = ''IN'' then in_sym
      else if w = ''INTEGER'' then integer_sym
      else if w = ''IS'' then is_sym
      else if w = ''LOOP'' then loop_sym
      else if w = ''NOT'' then not_sym
      else if w = ''NULL'' then null_sym
      else if w = ''ODD'' then odd_sym
      else if w = ''OR'' then or_sym
      else if w = ''PRAGMA'' then pragma_sym
      else if w = ''PROCEDURE'' then procedure_sym
      else if w = ''PROGRAM'' then program_sym
      else if w = ''READ'' then read_sym
      else if w = ''REAL'' then real_sym
      else if w = ''REF'' then ref_sym
      else if w = ''RETURN'' then return_sym
      else if w = ''REVERSE'' then reverse_sym
      else if w = ''STRING'' then string_sym
      else if w = ''THEN'' then then_sym
      else if w = ''TRUE'' then true_sym
      else if w = ''VALUE'' then value_sym
      else if w = ''WHEN'' then when_sym
      else if w = ''WRITE'' then write_sym
      else if w = ''WRITELN'' then writeln_sym
      else if w = ''WHILE'' then while_sym
      else identifier_sym)"

definition scan_alpha :: "scanner \<Rightarrow> scanner" where
  "scan_alpha s =
     (case scan_alpha_loop False
             (get_char (s\<lparr>current_identifier_name := [toupper (next_char s)]\<rparr>)) of
        (malformed_ident, s1) \<Rightarrow>
          (let malformed = (malformed_ident
                            \<or> (current_identifier_name s1 \<noteq> []
                                \<and> last (current_identifier_name s1) = CHR ''_''));
               s2 = (if malformed then flag_current 61 s1 else s1)
           in s2\<lparr>current_symbol := reserved_word (current_identifier_name s2)\<rparr>))"

function scan_digits :: "string \<Rightarrow> scanner \<Rightarrow> string \<times> scanner" where
  "scan_digits number_text s =
     (if isdigit (next_char s)
      then scan_digits (number_text @ [next_char s]) (get_char s)
      else (number_text, s))"
  by pat_completeness auto
termination
  by (relation "measure (\<lambda>(t, s). line_left isdigit s)")
    (auto simp: line_left_get_char end_marker_not_digit)

declare scan_digits.simps [simp del]

text \<open>
  \<^verbatim>\<open>std::stoi\<close> on the text \<^verbatim>\<open>scan_digit\<close> passes it, a string of decimal digits: the
  value, or an exception (\<open>None\<close>) when there is no digit or the value exceeds the
  largest \<^verbatim>\<open>int\<close>. \<^verbatim>\<open>std::stod\<close> and the conversion to \<^verbatim>\<open>float\<close> are floating-point
  library code: they are the parameter \<open>stod\<close> of \<open>scan_digit\<close>, \<open>None\<close> when the
  call throws.
\<close>

definition stoi :: "string \<Rightarrow> int option" where
  "stoi txt =
     (let ds = takeWhile isdigit txt;
          v = foldl (\<lambda>a c. 10 * a + (int (of_char c) - 48)) 0 ds
      in if ds = [] \<or> v > 2147483647 then None else Some v)"

definition scan_digit :: "(string \<Rightarrow> cfloat option) \<Rightarrow> scanner \<Rightarrow> scanner" where
  "scan_digit stod s =
     (case scan_digits [] s of
        (text1, s1) \<Rightarrow>
     (case (if next_char s1 = CHR ''.'' \<and> following_char s1 \<noteq> CHR ''.''
            then (let s2 = get_char s1;
                      s3 = (if \<not> isdigit (next_char s2) then flag_current 77 s2 else s2)
                  in case scan_digits (text1 @ [next_char s1]) s3 of
                       (t, s4) \<Rightarrow> (True, t, s4))
            else (False, text1, s1)) of
        (is_real1, text2, s5) \<Rightarrow>
     (case (if next_char s5 = CHR ''E'' \<or> next_char s5 = CHR ''e''
            then (let s6 = get_char s5;
                      t6 = text2 @ [next_char s5];
                      (t7, s7) = (if next_char s6 = CHR ''+'' \<or> next_char s6 = CHR ''-''
                                  then (t6 @ [next_char s6], get_char s6) else (t6, s6));
                      s8 = (if \<not> isdigit (next_char s7) then flag_current 77 s7 else s7)
                  in case scan_digits t7 s8 of
                       (t, s9) \<Rightarrow> (True, t, s9))
            else (is_real1, text2, s5)) of
        (is_real, number_text, s10) \<Rightarrow>
     (let s11 = (if isalpha (next_char s10) then flag_current 77 s10 else s10)
      in if is_real
         then (case stod number_text of
                 Some v \<Rightarrow> s11\<lparr>current_real_value := v, current_symbol := real_num\<rparr>
               | None \<Rightarrow> (flag_current 77 s11)
                           \<lparr>current_real_value := ''0'', current_symbol := real_num\<rparr>)
         else (case stoi number_text of
                 Some v \<Rightarrow> s11\<lparr>current_integer_value := v, current_symbol := integer\<rparr>
               | None \<Rightarrow> (flag_current 77 s11)
                           \<lparr>current_integer_value := 0, current_symbol := integer\<rparr>)))))"

text \<open>
  Each branch of \<^verbatim>\<open>scan_special_symbol\<close> sets the symbol (a two-character operator
  also steps onto its second character); the \<^verbatim>\<open>get_char\<close> at the bottom then consumes
  one character. A string returns from \<^verbatim>\<open>scan_string\<close> directly.
\<close>

definition scan_special_symbol :: "scanner \<Rightarrow> scanner" where
  "scan_special_symbol s =
     (let c = next_char s; sym = (\<lambda>x. s\<lparr>current_symbol := x\<rparr>)
      in if c = CHR 0x22 then scan_string s
         else get_char
          (if c = CHR '':''
           then (if following_char s = CHR ''='' then get_char (sym becomes_sym) else sym colon_sym)
           else if c = CHR ''<''
           then (if following_char s = CHR ''='' then get_char (sym less_or_equal_sym)
                 else if following_char s = CHR ''>'' then get_char (sym not_equals_sym)
                 else sym less_than_sym)
           else if c = CHR ''>''
           then (if following_char s = CHR ''='' then get_char (sym greater_or_equal_sym)
                 else sym greater_than_sym)
           else if c = CHR ''*''
           then (if following_char s = CHR ''*'' then get_char (sym power_sym)
                 else sym asterisk_sym)
           else if c = CHR ''.''
           then (if following_char s = CHR ''.'' then get_char (sym range_sym)
                 else flag_current (error_code range_sym) (sym nul))
           else if c = CHR ''&'' then sym ampersand_sym
           else if c = CHR ''/'' then sym slash_sym
           else if c = CHR '';'' then sym semicolon_sym
           else if c = CHR ''('' then sym left_paren_sym
           else if c = CHR '')'' then sym right_paren_sym
           else if c = CHR '','' then sym comma_sym
           else if c = CHR ''+'' then sym plus_sym
           else if c = CHR ''-'' then sym minus_sym
           else if c = CHR ''='' then sym equals_sym
           else flag_current 74 (sym nul)))"

subsection \<open>Tokens\<close>

text \<open>
  \<^verbatim>\<open>get_token\<close> and \<^verbatim>\<open>parse_pragma\<close> call each other, so they take a bound on the
  depth of the calls still allowed and return \<open>None\<close> when it is used up;
  \<open>pragma_skip\<close> is the \<^verbatim>\<open>do ... while\<close> loop of \<^verbatim>\<open>parse_pragma\<close>. A token that is not a
  pragma needs depth 1.
\<close>

text \<open>
  Steps 1 and 2 of \<^verbatim>\<open>get_token\<close>: skip the separators, preset the symbol to end of
  program and record where the token starts.
\<close>

definition token_start :: "scanner \<Rightarrow> scanner" where
  "token_start s =
     (let s1 = skip_separators s
      in s1\<lparr>current_symbol := end_of_program,
             current_line_number := line_number s1,
             current_pos_on_line := pos_on_line s1\<rparr>)"

function (sequential) get_token :: "(string \<Rightarrow> cfloat option) \<Rightarrow> nat \<Rightarrow> scanner \<Rightarrow> (token \<times> scanner) option"
  and parse_pragma :: "(string \<Rightarrow> cfloat option) \<Rightarrow> nat \<Rightarrow> scanner \<Rightarrow> scanner option"
  and pragma_skip :: "(string \<Rightarrow> cfloat option) \<Rightarrow> nat \<Rightarrow> scanner \<Rightarrow> scanner option"
where
  "get_token stod 0 s = None"
| "get_token stod (Suc d) s =
     (let s2 = token_start s
      in if \<not> eof_flag s2
         then (let s3 = (if isalpha (next_char s2) then scan_alpha s2
                         else if isdigit (next_char s2) then scan_digit stod s2
                         else scan_special_symbol s2);
                   t = new_token (current_symbol s3) (current_line_number s3) (current_pos_on_line s3)
               in if current_symbol s3 = identifier_sym
                  then (let s4 = s3\<lparr>current_token := t\<lparr>tk_identifier_value := current_identifier_name s3\<rparr>\<rparr>
                        in Some (current_token s4, s4))
                  else if current_symbol s3 = strng
                  then (let s4 = s3\<lparr>current_token := t\<lparr>tk_string_value := current_string_value s3\<rparr>\<rparr>
                        in Some (current_token s4, s4))
                  else if current_symbol s3 = integer
                  then (let s4 = s3\<lparr>current_token := t\<lparr>tk_integer_value := current_integer_value s3\<rparr>\<rparr>
                        in Some (current_token s4, s4))
                  else if current_symbol s3 = real_num
                  then (let s4 = s3\<lparr>current_token := t\<lparr>tk_real_value := current_real_value s3\<rparr>\<rparr>
                        in Some (current_token s4, s4))
                  else if current_symbol s3 = pragma_sym
                  then (case parse_pragma stod d s3 of
                          None \<Rightarrow> None
                        | Some s4 \<Rightarrow> Some (current_token s4, s4))
                  else (let s4 = s3\<lparr>current_token := t\<rparr> in Some (current_token s4, s4)))
         else (let s4 = s2\<lparr>current_token :=
                              new_token end_of_program (line_number s2) (pos_on_line s2)\<rparr>
               in Some (current_token s4, s4)))"
| "parse_pragma stod 0 s = None"
| "parse_pragma stod (Suc d) s =
     (case get_token stod d s of
        None \<Rightarrow> None
      | Some (t1, s1) \<Rightarrow>
          (let s2 = (if current_symbol s1 \<noteq> identifier_sym then flag_current 69 s1 else s1)
           in case get_token stod d s2 of
                None \<Rightarrow> None
              | Some (t3, s3) \<Rightarrow>
                  (let s4 = (if current_symbol s3 \<noteq> left_paren_sym
                             then flag_current (error_code left_paren_sym) s3 else s3)
                   in case pragma_skip stod d s4 of
                        None \<Rightarrow> None
                      | Some s5 \<Rightarrow>
                          if current_symbol s5 \<noteq> semicolon_sym
                          then Some (flag_current (error_code semicolon_sym) s5)
                          else map_option snd (get_token stod d s5))))"
| "pragma_skip stod 0 s = None"
| "pragma_skip stod (Suc d) s =
     (case get_token stod d s of
        None \<Rightarrow> None
      | Some (t1, s1) \<Rightarrow>
          if current_symbol s1 = end_of_program then Some s1
          else if current_symbol s1 \<noteq> right_paren_sym then pragma_skip stod d s1
          else Some s1)"
  by pat_completeness auto
termination
  by (relation "measure (\<lambda>x. case x of
        Inl (f, d, s) \<Rightarrow> d
      | Inr (Inl (f, d, s)) \<Rightarrow> d
      | Inr (Inr (f, d, s)) \<Rightarrow> d)") (simp_all (no_asm))

text \<open>The first \<open>n\<close> tokens of a scanner, each read with depth \<open>d\<close>.\<close>

fun tokens :: "(string \<Rightarrow> cfloat option) \<Rightarrow> nat \<Rightarrow> nat \<Rightarrow> scanner \<Rightarrow> (token list \<times> scanner) option" where
  "tokens stod d 0 s = Some ([], s)"
| "tokens stod d (Suc n) s =
     (case get_token stod d s of
        None \<Rightarrow> None
      | Some (t, s1) \<Rightarrow>
          (case tokens stod d n s1 of
             None \<Rightarrow> None
           | Some (ts, s2) \<Rightarrow> Some (t # ts, s2)))"

section \<open>Theorems\<close>

subsection \<open>The scope stack\<close>

lemma close_scope_nonempty: "t \<noteq> [] \<Longrightarrow> close_scope t \<noteq> []"
  by (cases t rule: rev_cases) (auto simp: close_scope_def)

lemma open_scope_nonempty: "open_scope t \<noteq> []"
  by (simp add: open_scope_def)

lemma close_scope_hd: "t \<noteq> [] \<Longrightarrow> hd (close_scope t) = hd t"
  by (cases t rule: rev_cases) (auto simp: close_scope_def hd_append)

lemma open_scope_hd: "t \<noteq> [] \<Longrightarrow> hd (open_scope t) = hd t"
  by (simp add: open_scope_def)

lemma run_scope_op_keeps: "t \<noteq> [] \<Longrightarrow> run_scope_op x t \<noteq> [] \<and> hd (run_scope_op x t) = hd t"
  by (cases x) (simp_all add: close_scope_nonempty open_scope_nonempty close_scope_hd open_scope_hd)

lemma run_scope_ops_keeps:
  "t \<noteq> [] \<Longrightarrow> run_scope_ops ops t \<noteq> [] \<and> hd (run_scope_ops ops t) = hd t"
  unfolding run_scope_ops_def
proof (induction ops arbitrary: t)
  case Nil
  then show ?case by simp
next
  case (Cons x ops)
  from Cons.prems have step: "run_scope_op x t \<noteq> [] \<and> hd (run_scope_op x t) = hd t"
    by (rule run_scope_op_keeps)
  with Cons.IH [of "run_scope_op x t"] show ?case by simp
qed

text \<open>
  C5. Whatever sequence of \<^verbatim>\<open>open_scope\<close> and \<^verbatim>\<open>close_scope\<close> calls is run on a table
  whose stack is not empty (the constructor's table holds the global frame), the stack
  stays non-empty and its outermost frame is the one it started with; a
  \<^verbatim>\<open>close_scope\<close> on a stack of one frame changes nothing, and any other
  \<^verbatim>\<open>close_scope\<close> removes exactly the top frame, records included.
\<close>

theorem scope_stack_never_empty:
  assumes "t \<noteq> []"
  shows "run_scope_ops ops t \<noteq> []
       \<and> hd (run_scope_ops ops t) = hd t
       \<and> (length t = 1 \<longrightarrow> close_scope t = t)
       \<and> (length t > 1 \<longrightarrow> close_scope t = butlast t \<and> length (close_scope t) = length t - 1)
       \<and> run_scope_ops ops id_table_init \<noteq> []
       \<and> hd (run_scope_ops ops id_table_init) = []"
proof -
  have init: "id_table_init \<noteq> []" by (simp add: id_table_init_def)
  have "hd (run_scope_ops ops id_table_init) = hd id_table_init"
    using run_scope_ops_keeps [OF init] by simp
  then have "hd (run_scope_ops ops id_table_init) = []" by (simp add: id_table_init_def)
  moreover have "run_scope_ops ops id_table_init \<noteq> []"
    using run_scope_ops_keeps [OF init] by simp
  moreover have "run_scope_ops ops t \<noteq> [] \<and> hd (run_scope_ops ops t) = hd t"
    using run_scope_ops_keeps [OF assms] .
  ultimately show ?thesis by (simp add: close_scope_def)
qed

theorem scope_stack_never_empty_witness:
  "run_scope_ops [Close_scope, Open_scope, Close_scope, Close_scope] [[], [(''X'', new_record ''X'')]]
     = [[]]
   \<and> close_scope [[(''G'', new_record ''G'')]] = [[(''G'', new_record ''G'')]]
   \<and> close_scope [[], [(''X'', new_record ''X'')]] = [[]]"
proof -
  have ne: "[[], [(''X'', new_record ''X'')]] \<noteq> ([] :: id_table)" by simp
  have ne1: "[[(''G'', new_record ''G'')]] \<noteq> ([] :: id_table)" by simp
  note a = scope_stack_never_empty [OF ne, of "[Close_scope, Open_scope, Close_scope, Close_scope]"]
  note b = scope_stack_never_empty [OF ne1, of "[]"]
  have run: "run_scope_ops [Close_scope, Open_scope, Close_scope, Close_scope]
               [[], [(''X'', new_record ''X'')]] = [[]]"
    by (simp add: run_scope_ops_def close_scope_def open_scope_def)
  from a b run show ?thesis by simp
qed

subsection \<open>Assignment\<close>

text \<open>
  C4. \<^verbatim>\<open>check_assignment\<close> on a left-hand-side name: an undeclared name is flagged
  not-declared (81); a declared constant is flagged not-assignable (85) and nothing
  else is reported; for any other declared name the sink is left as it was exactly
  when the two types are equal, or the left is real and the right integer, or either
  is unknown, and otherwise the one diagnostic added is type-mismatch (93).
\<close>

theorem check_assignment_rules:
  "(lookup tab n = None \<longrightarrow> check_assignment n rhs wh tab err = err @ [Flag_tok wh 81])
   \<and> (\<forall>r. lookup tab n = Some r \<and> rec_kd r = kind_constant \<longrightarrow>
          check_assignment n rhs wh tab err = err @ [Flag_tok wh 85])
   \<and> (\<forall>r. lookup tab n = Some r \<and> rec_kd r \<noteq> kind_constant \<longrightarrow>
          ((check_assignment n rhs wh tab err = err) \<longleftrightarrow>
             (rec_ty r = rhs \<or> (rec_ty r = type_real \<and> rhs = type_integer)
              \<or> rec_ty r = type_unknown \<or> rhs = type_unknown))
          \<and> (check_assignment n rhs wh tab err \<noteq> err \<longrightarrow>
               check_assignment n rhs wh tab err = err @ [Flag_tok wh 93]))"
  by (auto simp: check_assignment_def flag_tok_def)


theorem check_assignment_rules_witness:
  "check_assignment ''R'' type_integer None
     [[], [(''R'', \<lparr>rec_name = ''R'', rec_ty = type_real, rec_kd = kind_variable\<rparr>),
           (''K'', \<lparr>rec_name = ''K'', rec_ty = type_integer, rec_kd = kind_constant\<rparr>)]] [] = []
   \<and> check_assignment ''K'' type_integer None
     [[], [(''R'', \<lparr>rec_name = ''R'', rec_ty = type_real, rec_kd = kind_variable\<rparr>),
           (''K'', \<lparr>rec_name = ''K'', rec_ty = type_integer, rec_kd = kind_constant\<rparr>)]] []
       = [Flag_tok None 85]
   \<and> check_assignment ''Q'' type_integer None
     [[], [(''R'', \<lparr>rec_name = ''R'', rec_ty = type_real, rec_kd = kind_variable\<rparr>),
           (''K'', \<lparr>rec_name = ''K'', rec_ty = type_integer, rec_kd = kind_constant\<rparr>)]] []
       = [Flag_tok None 81]
   \<and> check_assignment ''R'' type_string None
     [[], [(''R'', \<lparr>rec_name = ''R'', rec_ty = type_real, rec_kd = kind_variable\<rparr>),
           (''K'', \<lparr>rec_name = ''K'', rec_ty = type_integer, rec_kd = kind_constant\<rparr>)]] []
       = [Flag_tok None 93]"
  (is "?A ?tab \<and> ?B \<and> ?C \<and> ?D")
proof -
  let ?t = "[[], [(''R'', \<lparr>rec_name = ''R'', rec_ty = type_real, rec_kd = kind_variable\<rparr>),
                  (''K'', \<lparr>rec_name = ''K'', rec_ty = type_integer, rec_kd = kind_constant\<rparr>)]]"
  have r: "lookup ?t ''R'' = Some \<lparr>rec_name = ''R'', rec_ty = type_real, rec_kd = kind_variable\<rparr>"
    by (simp add: lookup_def)
  have k: "lookup ?t ''K'' = Some \<lparr>rec_name = ''K'', rec_ty = type_integer, rec_kd = kind_constant\<rparr>"
    by (simp add: lookup_def)
  have q: "lookup ?t ''Q'' = None"
    by (simp add: lookup_def)
  have a: "check_assignment ''R'' type_integer None ?t [] = []"
    using check_assignment_rules [of ?t "''R''" type_integer None "[]"] r by simp
  have b: "check_assignment ''K'' type_integer None ?t [] = [Flag_tok None 85]"
    using check_assignment_rules [of ?t "''K''" type_integer None "[]"] k by simp
  have c: "check_assignment ''Q'' type_integer None ?t [] = [Flag_tok None 81]"
    using check_assignment_rules [of ?t "''Q''" type_integer None "[]"] q by simp
  have d: "check_assignment ''R'' type_string None ?t [] = [Flag_tok None 93]"
    using check_assignment_rules [of ?t "''R''" type_string None "[]"] r by simp
  from a b c d show ?thesis by simp
qed

subsection \<open>Binary operators on an unknown operand\<close>

text \<open>
  C1. \<^verbatim>\<open>check_binary\<close> with an unknown operand, on either side and whatever the other
  operand is: only the concatenation branch lets it pass. Every arithmetic operator
  reports arithmetic-required (116), \<^verbatim>\<open>and\<close> and \<^verbatim>\<open>or\<close> report boolean-required (120)
  and every comparison reports type-mismatch (114), each returning unknown; \<^verbatim>\<open>&\<close>
  reports nothing and returns string.
\<close>

theorem check_binary_unknown_operand:
  "check_binary type_unknown plus_sym R wh err = (type_unknown, err @ [Flag_tok wh 116])
   \<and> check_binary L plus_sym type_unknown wh err = (type_unknown, err @ [Flag_tok wh 116])
   \<and> check_binary type_unknown minus_sym R wh err = (type_unknown, err @ [Flag_tok wh 116])
   \<and> check_binary L minus_sym type_unknown wh err = (type_unknown, err @ [Flag_tok wh 116])
   \<and> check_binary type_unknown asterisk_sym R wh err = (type_unknown, err @ [Flag_tok wh 116])
   \<and> check_binary L asterisk_sym type_unknown wh err = (type_unknown, err @ [Flag_tok wh 116])
   \<and> check_binary type_unknown slash_sym R wh err = (type_unknown, err @ [Flag_tok wh 116])
   \<and> check_binary L slash_sym type_unknown wh err = (type_unknown, err @ [Flag_tok wh 116])
   \<and> check_binary type_unknown power_sym R wh err = (type_unknown, err @ [Flag_tok wh 116])
   \<and> check_binary L power_sym type_unknown wh err = (type_unknown, err @ [Flag_tok wh 116])
   \<and> check_binary type_unknown and_sym R wh err = (type_unknown, err @ [Flag_tok wh 120])
   \<and> check_binary L and_sym type_unknown wh err = (type_unknown, err @ [Flag_tok wh 120])
   \<and> check_binary type_unknown or_sym R wh err = (type_unknown, err @ [Flag_tok wh 120])
   \<and> check_binary L or_sym type_unknown wh err = (type_unknown, err @ [Flag_tok wh 120])
   \<and> check_binary type_unknown equals_sym R wh err = (type_unknown, err @ [Flag_tok wh 114])
   \<and> check_binary L equals_sym type_unknown wh err = (type_unknown, err @ [Flag_tok wh 114])
   \<and> check_binary type_unknown not_equals_sym R wh err = (type_unknown, err @ [Flag_tok wh 114])
   \<and> check_binary L not_equals_sym type_unknown wh err = (type_unknown, err @ [Flag_tok wh 114])
   \<and> check_binary type_unknown less_than_sym R wh err = (type_unknown, err @ [Flag_tok wh 114])
   \<and> check_binary L less_than_sym type_unknown wh err = (type_unknown, err @ [Flag_tok wh 114])
   \<and> check_binary type_unknown less_or_equal_sym R wh err = (type_unknown, err @ [Flag_tok wh 114])
   \<and> check_binary L less_or_equal_sym type_unknown wh err = (type_unknown, err @ [Flag_tok wh 114])
   \<and> check_binary type_unknown greater_than_sym R wh err = (type_unknown, err @ [Flag_tok wh 114])
   \<and> check_binary L greater_than_sym type_unknown wh err = (type_unknown, err @ [Flag_tok wh 114])
   \<and> check_binary type_unknown greater_or_equal_sym R wh err = (type_unknown, err @ [Flag_tok wh 114])
   \<and> check_binary L greater_or_equal_sym type_unknown wh err = (type_unknown, err @ [Flag_tok wh 114])
   \<and> check_binary type_unknown ampersand_sym R wh err = (type_string, err)
   \<and> check_binary L ampersand_sym type_unknown wh err = (type_string, err)"
  by (simp add: check_binary_def is_num_def is_bool_def is_str_def flag_tok_def)

subsection \<open>The dump\<close>

text \<open>
  C9. \<^verbatim>\<open>dump\<close> prints the scopes from level 0 upwards, one line per record with its
  name and type label, but the kind column does not depend on the record's kind: it is
  the label of \<^verbatim>\<open>kind_name(0)\<close>, UNKNOWN, for a variable as for any other record.
\<close>

theorem dump_kind_column:
  "dump_record lvl (r\<lparr>rec_kd := k\<rparr>) = dump_record lvl r
   \<and> dump [[(''X'', \<lparr>rec_name = ''X'', rec_ty = type_integer, rec_kd = kind_variable\<rparr>)]]
       = ''~~~~~~~~~~~~~~~~~~~~~~~~~~~~~~~~~~~~~\<newline>scope level 0\<newline>---------------------\<newline>Token Name: X Line No: 0 Position: 0  Type: INTEGER  Kind: UNKNOWN  Level: 0  Offset: 0  Trace?: 0  #params: 0\<newline>''"
  by (simp add: dump_def dump_scope_def dump_record_def kind_name_def ty_name_def to_string_def
      nat_to_string.simps [of 0] digit_char_def endl_def)


subsection \<open>Finalization\<close>

lemma finalize_loop_length: "length (finalize_loop la n xs) = length xs"
  by (induction xs arbitrary: n) simp_all

lemma finalize_loop_nth:
  "i < length xs \<Longrightarrow>
   finalize_loop la n xs ! i
     = format_record (xs ! i) (resolve_operand la (operand2 (xs ! i))) (n + int i)"
proof (induction xs arbitrary: n i)
  case Nil
  then show ?case by simp
next
  case (Cons x xs)
  show ?case
  proof (cases i)
    case 0
    then show ?thesis by simp
  next
    case (Suc j)
    with Cons.prems have "j < length xs" by simp
    from Cons.IH [OF this, of "n + 1"] Suc show ?thesis by (simp add: algebra_simps)
  qed
qed

text \<open>
  C2, as the claim states it, fails: a jump to the fresh label \<^verbatim>\<open>L0\<close> that
  \<^verbatim>\<open>gen_label\<close> never places is finalized without an error, and the record written
  carries the text \<^verbatim>\<open>L0\<close> as its second operand.
\<close>

theorem finalize_unplaced_label_counterexample:
  "finalize True
     (gen_jump (fst (gen_new_label (code_gen_init ''out.pal'')))
               (snd (gen_new_label (code_gen_init ''out.pal''))))
   = Inr [''JMP  0     L0           (1) Jump.'']"
  by code_simp

text \<open>
  C2, amended. For every instruction whose second operand is a symbolic label that was
  never placed, \<^verbatim>\<open>finalize\<close> does not fail: when the output file opens it writes one
  record per instruction, and the record of that instruction carries the label's name
  unchanged as its second operand. \<^verbatim>\<open>finalize\<close> fails only when the output file
  cannot be opened.
\<close>

theorem finalize_unplaced_label:
  assumes "i < length (instructions cg)"
    and "is_label (operand2 (instructions cg ! i))"
    and "label_addresses cg (operand2 (instructions cg ! i)) = None"
  shows "(\<exists>recs. finalize True cg = Inr recs
           \<and> length recs = length (instructions cg)
           \<and> recs ! i = format_record (instructions cg ! i) (operand2 (instructions cg ! i)) (int i + 1))
         \<and> (\<forall>e. finalize can_open cg = Inl e \<longrightarrow> \<not> can_open)"
proof -
  have "resolve_operand (label_addresses cg) (operand2 (instructions cg ! i))
          = operand2 (instructions cg ! i)"
    using assms(2,3) by (simp add: resolve_operand_def)
  then have "\<exists>recs. finalize True cg = Inr recs
           \<and> length recs = length (instructions cg)
           \<and> recs ! i = format_record (instructions cg ! i) (operand2 (instructions cg ! i)) (int i + 1)"
    using assms(1) by (simp add: finalize_def finalize_loop_length finalize_loop_nth add.commute)
  moreover have "\<forall>e. finalize can_open cg = Inl e \<longrightarrow> \<not> can_open"
    by (auto simp: finalize_def)
  ultimately show ?thesis by blast
qed

theorem finalize_unplaced_label_witness:
  "\<exists>recs. finalize True (gen_jump ''L7'' (code_gen_init ''out.pal'')) = Inr recs
      \<and> length recs = 1
      \<and> recs ! 0 = ''JMP  0     L7           (1) Jump.''"
proof -
  let ?cg = "gen_jump ''L7'' (code_gen_init ''out.pal'')"
  have ins: "instructions ?cg = [\<lparr>opcode = ''JMP'', operand1 = 0, operand2 = ''L7'', remark = ''Jump.''\<rparr>]"
    by (simp add: gen_jump_def emit_label_def push_instruction_def code_gen_init_def)
  have la: "label_addresses ?cg = Map.empty"
    by (simp add: gen_jump_def emit_label_def push_instruction_def code_gen_init_def)
  have h1: "0 < length (instructions ?cg)" using ins by simp
  have h2: "is_label (operand2 (instructions ?cg ! 0))"
    using ins by (simp add: is_label_def isdigit_def)
  have h3: "label_addresses ?cg (operand2 (instructions ?cg ! 0)) = None"
    using la by simp
  have fmt: "format_record (instructions ?cg ! 0) (operand2 (instructions ?cg ! 0)) (int 0 + 1)
               = ''JMP  0     L7           (1) Jump.''"
    by code_simp
  from finalize_unplaced_label [OF h1 h2 h3, of True] ins fmt show ?thesis by simp
qed

subsection \<open>The driver\<close>

text \<open>
  C8. \<^verbatim>\<open>main\<close> calls the emitter's \<^verbatim>\<open>finalize\<close> exactly when the error count is zero.
  In a run that completes (exit code 0) the instruction file is written if and only if
  the error count is zero; with a nonzero count the run completes, \<^verbatim>\<open>finalize\<close> is
  not called and no instruction file is written.
\<close>

theorem finalization_iff_no_errors:
  "(finalize_called (main_results n code can_open) \<longleftrightarrow> n = 0)
   \<and> (exit_code (main_results n code can_open) = 0 \<longrightarrow>
        (code_file (main_results n code can_open) \<noteq> None \<longleftrightarrow> n = 0))
   \<and> (n \<noteq> 0 \<longrightarrow>
        exit_code (main_results n code can_open) = 0
        \<and> code_file (main_results n code can_open) = None
        \<and> cout (main_results n code can_open) = [''Code generation skipped due to errors.''])
   \<and> (n = 0 \<and> can_open \<longrightarrow>
        exit_code (main_results n code can_open) = 0
        \<and> code_file (main_results n code can_open)
            = Some (finalize_loop (label_addresses code) 1 (instructions code)))"
  by (auto simp: main_results_def finalize_def split: sum.splits)

theorem finalization_iff_no_errors_witness:
  "code_file (main_results 0 (gen_program_end (code_gen_init ''p.pal'')) True)
     = Some [''JMP  0     0            (1) Halt program.'']
   \<and> exit_code (main_results 0 (gen_program_end (code_gen_init ''p.pal'')) True) = 0
   \<and> code_file (main_results 2 (gen_program_end (code_gen_init ''p.pal'')) True) = None
   \<and> exit_code (main_results 2 (gen_program_end (code_gen_init ''p.pal'')) True) = 0
   \<and> \<not> finalize_called (main_results 2 (gen_program_end (code_gen_init ''p.pal'')) True)"
proof -
  let ?cg = "gen_program_end (code_gen_init ''p.pal'')"
  have recs: "finalize_loop (label_addresses ?cg) 1 (instructions ?cg)
                = [''JMP  0     0            (1) Halt program.'']"
    by code_simp
  from finalization_iff_no_errors [of 0 ?cg True] finalization_iff_no_errors [of 2 ?cg True] recs
  show ?thesis by simp
qed


subsection \<open>The recovery flag\<close>

lemma advance_err [simp]: "p_err (advance p) = p_err p"
  by (simp add: advance_def sc_get_token_def split: list.splits)

lemma advance_recovering [simp]: "recovering (advance p) = recovering p"
  by (simp add: advance_def sc_get_token_def split: list.splits)

lemma expect_skip_err [simp]: "p_err (expect_skip e p) = p_err p"
  by (induction e p rule: expect_skip.induct) (subst expect_skip.simps, simp)

lemma expect_skip_recovering [simp]: "recovering (expect_skip e p) = recovering p"
  by (induction e p rule: expect_skip.induct) (subst expect_skip.simps, simp)

lemma synchronize_err [simp]: "p_err (synchronize f p) = p_err p"
  by (induction f p rule: synchronize.induct) (subst synchronize.simps, simp)

lemma synchronize_recovering: "recovering (synchronize f p) = False"
  by (induction f p rule: synchronize.induct) (subst synchronize.simps, simp)

lemma synchronize_stops:
  "S (synchronize f p) = end_of_program \<or> S (synchronize f p) \<in> set f"
  by (induction f p rule: synchronize.induct) (subst (1 2) synchronize.simps, simp add: S_def)

lemma run_call_recovering_silent: "recovering p \<Longrightarrow> p_err (run_call c p) = p_err p"
  by (cases c) (simp_all add: accept_def expect_def flag_here_def flag_prev_def Let_def)

lemma run_call_report:
  "p_err (run_call c p) \<noteq> p_err p \<Longrightarrow>
     \<not> recovering p \<and> recovering (run_call c p) \<and> length (p_err (run_call c p)) = Suc (length (p_err p))"
  by (cases c)
    (auto simp: accept_def expect_def flag_here_def flag_prev_def flag_tok_def flag_pos_def Let_def
      split: if_splits option.splits)

lemma reported_while_recovering_zero: "reported_while_recovering cs p = 0"
  by (induction cs arbitrary: p) (simp_all add: run_call_recovering_silent)

text \<open>
  C3. The parser reports through \<^verbatim>\<open>expect\<close>, \<^verbatim>\<open>flag_here\<close> and \<^verbatim>\<open>flag_prev\<close> only.
  Each of them leaves the sink untouched when \<^verbatim>\<open>recovering\<close> is true; whenever one of
  them adds a diagnostic, \<^verbatim>\<open>recovering\<close> was false before the call, exactly one
  diagnostic is added and \<^verbatim>\<open>recovering\<close> is true after it. Hence, over any sequence of
  helper calls, the number of diagnostics reported by calls made while \<^verbatim>\<open>recovering\<close>
  is true is zero.
\<close>

theorem report_only_when_not_recovering:
  "(recovering p \<longrightarrow>
      p_err (expect e n p) = p_err p \<and> p_err (flag_here n p) = p_err p
      \<and> p_err (flag_prev n p) = p_err p)
   \<and> (p_err (expect e n p) \<noteq> p_err p \<longrightarrow>
        \<not> recovering p \<and> recovering (expect e n p)
        \<and> p_err (expect e n p) = p_err p @ [Flag_tok (Some (look p)) n])
   \<and> (p_err (flag_here n p) \<noteq> p_err p \<longrightarrow>
        \<not> recovering p \<and> recovering (flag_here n p)
        \<and> p_err (flag_here n p) = p_err p @ [Flag_tok (Some (look p)) n])
   \<and> (p_err (flag_prev n p) \<noteq> p_err p \<longrightarrow>
        \<not> recovering p \<and> recovering (flag_prev n p)
        \<and> length (p_err (flag_prev n p)) = Suc (length (p_err p)))
   \<and> (\<not> recovering p \<longrightarrow> recovering (flag_here n p) \<and> recovering (flag_prev n p)
        \<and> p_err (flag_here n p) = p_err p @ [Flag_tok (Some (look p)) n])
   \<and> (\<not> recovering p \<and> S p \<noteq> e \<longrightarrow>
        recovering (expect e n p) \<and> p_err (expect e n p) = p_err p @ [Flag_tok (Some (look p)) n])
   \<and> (p_err (run_call c p) \<noteq> p_err p \<longrightarrow> \<not> recovering p \<and> recovering (run_call c p))
   \<and> reported_while_recovering cs p = 0"
proof -
  have a: "recovering p \<longrightarrow>
      p_err (expect e n p) = p_err p \<and> p_err (flag_here n p) = p_err p
      \<and> p_err (flag_prev n p) = p_err p"
    by (simp add: expect_def flag_here_def flag_prev_def Let_def)
  have b: "p_err (expect e n p) \<noteq> p_err p \<longrightarrow>
        \<not> recovering p \<and> recovering (expect e n p)
        \<and> p_err (expect e n p) = p_err p @ [Flag_tok (Some (look p)) n]"
    by (simp add: expect_def flag_tok_def Let_def)
  have c: "p_err (flag_here n p) \<noteq> p_err p \<longrightarrow>
        \<not> recovering p \<and> recovering (flag_here n p)
        \<and> p_err (flag_here n p) = p_err p @ [Flag_tok (Some (look p)) n]"
    by (simp add: flag_here_def flag_tok_def)
  have d: "p_err (flag_prev n p) \<noteq> p_err p \<longrightarrow>
        \<not> recovering p \<and> recovering (flag_prev n p)
        \<and> length (p_err (flag_prev n p)) = Suc (length (p_err p))"
    by (simp add: flag_prev_def flag_tok_def flag_pos_def split: option.splits)
  have e: "\<not> recovering p \<longrightarrow> recovering (flag_here n p) \<and> recovering (flag_prev n p)
        \<and> p_err (flag_here n p) = p_err p @ [Flag_tok (Some (look p)) n]"
    by (simp add: flag_here_def flag_prev_def flag_tok_def split: option.splits)
  have f: "\<not> recovering p \<and> S p \<noteq> e \<longrightarrow>
        recovering (expect e n p) \<and> p_err (expect e n p) = p_err p @ [Flag_tok (Some (look p)) n]"
    by (simp add: expect_def flag_tok_def)
  have g: "p_err (run_call c p) \<noteq> p_err p \<longrightarrow> \<not> recovering p \<and> recovering (run_call c p)"
    using run_call_report [of c p] by blast
  from a b c d e f g reported_while_recovering_zero [of cs p] show ?thesis by blast
qed

theorem report_only_when_not_recovering_witness:
  "p_err (expect semicolon_sym 5
            (parser_init [new_token begin_sym 3 0, new_token end_sym 4 0] 5 0
               id_table_init (code_gen_init ''o.pal'')))
     = [Flag_tok (Some (new_token begin_sym 3 0)) 5]
   \<and> recovering (expect semicolon_sym 5
            (parser_init [new_token begin_sym 3 0, new_token end_sym 4 0] 5 0
               id_table_init (code_gen_init ''o.pal'')))
   \<and> p_err (expect identifier_sym 0 (expect semicolon_sym 5
            (parser_init [new_token begin_sym 3 0, new_token end_sym 4 0] 5 0
               id_table_init (code_gen_init ''o.pal''))))
     = [Flag_tok (Some (new_token begin_sym 3 0)) 5]"
proof -
  let ?p = "parser_init [new_token begin_sym 3 0, new_token end_sym 4 0] 5 0
              id_table_init (code_gen_init ''o.pal'')"
  let ?q = "expect semicolon_sym 5 ?p"
  have h1: "\<not> recovering ?p" by (simp add: parser_init_def)
  have h2: "S ?p \<noteq> semicolon_sym" by (simp add: parser_init_def S_def new_token_def)
  have l: "look ?p = new_token begin_sym 3 0" by (simp add: parser_init_def)
  have e: "p_err ?p = []" by (simp add: parser_init_def)
  have "\<not> recovering ?p \<and> S ?p \<noteq> semicolon_sym \<longrightarrow>
          recovering ?q \<and> p_err ?q = p_err ?p @ [Flag_tok (Some (look ?p)) 5]"
    using report_only_when_not_recovering [of ?p semicolon_sym 5 Advance "[]"] by blast
  with h1 h2 have first: "recovering ?q \<and> p_err ?q = p_err ?p @ [Flag_tok (Some (look ?p)) 5]"
    by blast
  have "recovering ?q \<longrightarrow> p_err (expect identifier_sym 0 ?q) = p_err ?q"
    using report_only_when_not_recovering [of ?q identifier_sym 0 Advance "[]"] by blast
  with first have second: "p_err (expect identifier_sym 0 ?q) = p_err ?q" by blast
  from first second l e show ?thesis by simp
qed

text \<open>
  C10. \<^verbatim>\<open>synchronize\<close> always returns (the scanner delivers end of program after
  finitely many tokens), and when it returns \<^verbatim>\<open>recovering\<close> is false, whether it
  stopped at a token of the follow set or at the end-of-program token; it reports
  nothing.
\<close>

theorem synchronize_clears_recovering:
  "recovering (synchronize follow p) = False
   \<and> (S (synchronize follow p) = end_of_program \<or> S (synchronize follow p) \<in> set follow)
   \<and> p_err (synchronize follow p) = p_err p"
  using synchronize_recovering [of follow p] synchronize_stops [of follow p] by simp


theorem synchronize_clears_recovering_witness:
  "recovering (synchronize [semicolon_sym]
     (flag_here 79 (parser_init [new_token comma_sym 2 0, new_token colon_sym 2 2] 3 0
                      id_table_init (code_gen_init ''o.pal'')))) = False
   \<and> S (synchronize [semicolon_sym]
     (flag_here 79 (parser_init [new_token comma_sym 2 0, new_token colon_sym 2 2] 3 0
                      id_table_init (code_gen_init ''o.pal'')))) = end_of_program
   \<and> recovering (flag_here 79 (parser_init [new_token comma_sym 2 0, new_token colon_sym 2 2] 3 0
                      id_table_init (code_gen_init ''o.pal'')))"
proof -
  let ?p = "flag_here 79 (parser_init [new_token comma_sym 2 0, new_token colon_sym 2 2] 3 0
                      id_table_init (code_gen_init ''o.pal''))"
  have s: "S (synchronize [semicolon_sym] ?p) = end_of_program" by code_simp
  have r: "recovering ?p" by (simp add: flag_here_def parser_init_def)
  from synchronize_clears_recovering [of "[semicolon_sym]" ?p] s r show ?thesis by simp
qed

subsection \<open>Unary operators\<close>

text \<open>
  C7. \<^verbatim>\<open>factor\<close> on the tokens \<^verbatim>\<open>odd "abc" ;\<close>: the result type is boolean and nothing
  is reported, although the operand is a string; \<^verbatim>\<open>factor\<close> returns for \<^verbatim>\<open>odd\<close> before
  any check, and \<^verbatim>\<open>check_unary\<close> has no case for it. On \<^verbatim>\<open>not "abc" ;\<close> and
  \<^verbatim>\<open>- "abc" ;\<close> the sibling branches report boolean-required (120) and
  arithmetic-required (116) at the operand; on \<^verbatim>\<open>- 3 ;\<close> the type stays integer, and
  on \<^verbatim>\<open>odd 3 ;\<close> the result is boolean.
\<close>

theorem odd_operand_unchecked:
  "map_option (\<lambda>(t, q). (t, p_err q))
     (factor 2 (parser_init
        [new_token odd_sym 1 0, (new_token strng 1 4)\<lparr>tk_string_value := ''abc''\<rparr>,
         new_token semicolon_sym 1 9] 2 0 id_table_init (code_gen_init ''o.pal'')))
     = Some (type_boolean, [])
   \<and> map_option (\<lambda>(t, q). (t, p_err q))
     (factor 2 (parser_init
        [new_token not_sym 1 0, (new_token strng 1 4)\<lparr>tk_string_value := ''abc''\<rparr>,
         new_token semicolon_sym 1 9] 2 0 id_table_init (code_gen_init ''o.pal'')))
     = Some (type_unknown,
             [Flag_tok (Some ((new_token strng 1 4)\<lparr>tk_string_value := ''abc''\<rparr>)) 120])
   \<and> map_option (\<lambda>(t, q). (t, p_err q))
     (factor 2 (parser_init
        [new_token minus_sym 1 0, (new_token strng 1 4)\<lparr>tk_string_value := ''abc''\<rparr>,
         new_token semicolon_sym 1 9] 2 0 id_table_init (code_gen_init ''o.pal'')))
     = Some (type_unknown,
             [Flag_tok (Some ((new_token strng 1 4)\<lparr>tk_string_value := ''abc''\<rparr>)) 116])
   \<and> map_option (\<lambda>(t, q). (t, p_err q))
     (factor 2 (parser_init
        [new_token minus_sym 1 0, (new_token integer 1 2)\<lparr>tk_integer_value := 3\<rparr>,
         new_token semicolon_sym 1 3] 2 0 id_table_init (code_gen_init ''o.pal'')))
     = Some (type_integer, [])
   \<and> map_option (\<lambda>(t, q). (t, p_err q))
     (factor 2 (parser_init
        [new_token odd_sym 1 0, (new_token integer 1 4)\<lparr>tk_integer_value := 3\<rparr>,
         new_token semicolon_sym 1 5] 2 0 id_table_init (code_gen_init ''o.pal'')))
     = Some (type_boolean, [])"
  by code_simp


subsection \<open>The scanner and the range operator\<close>

lemma get_char_keeps:
  "current_symbol (get_char s) = current_symbol s"
  "error (get_char s) = error s"
  "current_line_number (get_char s) = current_line_number s"
  "current_pos_on_line (get_char s) = current_pos_on_line s"
  by (simp_all add: get_char_def fill_buffer_def get_line_def split: list.splits)

lemma fill_buffer_error: "error (fill_buffer s) = error s"
  by (simp add: fill_buffer_def get_line_def split: list.splits)

lemma skip_whitespace_error: "error (skip_whitespace s) = error s"
  by (induction s rule: skip_whitespace.induct)
    (subst skip_whitespace.simps, simp add: get_char_keeps)

lemma skip_comment_error: "error (skip_comment s) = error s"
  by (induction s rule: skip_comment.induct)
    (subst skip_comment.simps, simp add: fill_buffer_error)

lemma skip_separators_error: "error (skip_separators s) = error s"
  by (induction s rule: skip_separators.induct)
    (subst skip_separators.simps, simp add: skip_comment_error skip_whitespace_error)

lemma token_start_fields:
  "error (token_start s) = error s"
  "current_line_number (token_start s) = line_number (token_start s)"
  "current_pos_on_line (token_start s) = pos_on_line (token_start s)"
  by (simp_all add: token_start_def Let_def skip_separators_error)

lemma dot_class: "\<not> isalpha CHR ''.''" "\<not> isdigit CHR ''.''"
  by (simp_all add: isalpha_def isdigit_def)

lemma scan_special_symbol_range:
  "next_char s = CHR ''.'' \<Longrightarrow> following_char s = CHR ''.'' \<Longrightarrow>
     current_symbol (scan_special_symbol s) = range_sym
     \<and> error (scan_special_symbol s) = error s
     \<and> current_line_number (scan_special_symbol s) = current_line_number s
     \<and> current_pos_on_line (scan_special_symbol s) = current_pos_on_line s"
  by (simp add: scan_special_symbol_def Let_def get_char_keeps)

lemma scan_special_symbol_lone_dot:
  "next_char s = CHR ''.'' \<Longrightarrow> following_char s \<noteq> CHR ''.'' \<Longrightarrow>
     current_symbol (scan_special_symbol s) = nul
     \<and> error (scan_special_symbol s)
         = error s @ [Flag_pos (current_line_number s) (current_pos_on_line s) 22]
     \<and> current_line_number (scan_special_symbol s) = current_line_number s
     \<and> current_pos_on_line (scan_special_symbol s) = current_pos_on_line s"
  by (simp add: scan_special_symbol_def Let_def get_char_keeps flag_current_def flag_pos_def
      error_code_def error_message_def)

lemma get_token_range:
  assumes "\<not> eof_flag (token_start s)" "next_char (token_start s) = CHR ''.''"
    "following_char (token_start s) = CHR ''.''"
  shows "\<exists>s'. get_token stod (Suc d) s
           = Some (new_token range_sym (line_number (token_start s)) (pos_on_line (token_start s)), s')
         \<and> error s' = error s"
  using assms scan_special_symbol_range [of "token_start s"]
  by (simp add: Let_def dot_class token_start_fields)

lemma get_token_lone_dot:
  assumes "\<not> eof_flag (token_start s)" "next_char (token_start s) = CHR ''.''"
    "following_char (token_start s) \<noteq> CHR ''.''"
  shows "\<exists>s'. get_token stod (Suc d) s
           = Some (new_token nul (line_number (token_start s)) (pos_on_line (token_start s)), s')
         \<and> error s' = error s @ [Flag_pos (line_number (token_start s)) (pos_on_line (token_start s)) 22]"
  using assms scan_special_symbol_lone_dot [of "token_start s"]
  by (simp add: Let_def dot_class token_start_fields)

lemma scan_digit_before_range:
  assumes "scan_digits [] s = (txt, s1)" "next_char s1 = CHR ''.''" "following_char s1 = CHR ''.''"
  shows "\<exists>v e. scan_digit stod s = s1\<lparr>error := e, current_integer_value := v, current_symbol := integer\<rparr>"
proof (cases "stoi txt")
  case None
  with assms have "scan_digit stod s
      = (flag_current 77 s1)\<lparr>current_integer_value := 0, current_symbol := integer\<rparr>"
    by (simp add: scan_digit_def Let_def isalpha_def)
  also have "\<dots> = s1\<lparr>error := flag_pos (current_line_number s1) (current_pos_on_line s1) 77 (error s1),
                       current_integer_value := 0, current_symbol := integer\<rparr>"
    by (simp add: flag_current_def)
  finally show ?thesis by blast
next
  case (Some v)
  with assms have "scan_digit stod s = s1\<lparr>current_integer_value := v, current_symbol := integer\<rparr>"
    by (simp add: scan_digit_def Let_def isalpha_def)
  also have "\<dots> = s1\<lparr>error := error s1, current_integer_value := v, current_symbol := integer\<rparr>"
    by simp
  finally show ?thesis by blast
qed

lemma following_char_not_eof: "following_char s = CHR ''.'' \<Longrightarrow> \<not> eof_flag s"
  by (auto simp: following_char_def end_marker_def split: if_splits)

lemma digit_not_alpha: "isdigit c \<Longrightarrow> \<not> isalpha c"
  by (auto simp: isdigit_def isalpha_def)

lemma dot_not_separator: "\<not> le_space CHR ''.''" "CHR ''.'' \<noteq> CHR ''-''"
  by (simp_all add: le_space_def)

lemma token_start_at_dot:
  "next_char s = CHR ''.'' \<Longrightarrow>
     token_start s = s\<lparr>current_symbol := end_of_program, current_line_number := line_number s,
                       current_pos_on_line := pos_on_line s\<rparr>"
  by (simp add: token_start_def Let_def skip_separators.simps [of s] dot_not_separator)

lemma get_token_integer_then_range:
  assumes "\<not> eof_flag (token_start s)" "isdigit (next_char (token_start s))"
    and "scan_digits [] (token_start s) = (txt, s1)"
    and "next_char s1 = CHR ''.''" "following_char s1 = CHR ''.''"
  shows "\<exists>t1 s' t2 s''. get_token stod (Suc d) s = Some (t1, s') \<and> tk_sym t1 = integer
           \<and> get_token stod (Suc d) s' = Some (t2, s'') \<and> tk_sym t2 = range_sym"
proof -
  from scan_digit_before_range [OF assms(3,4,5), of stod]
  obtain v e where r: "scan_digit stod (token_start s)
      = s1\<lparr>error := e, current_integer_value := v, current_symbol := integer\<rparr>" by blast
  let ?s3 = "s1\<lparr>error := e, current_integer_value := v, current_symbol := integer\<rparr>"
  let ?t1 = "(new_token integer (current_line_number ?s3) (current_pos_on_line ?s3))
               \<lparr>tk_integer_value := current_integer_value ?s3\<rparr>"
  let ?s' = "?s3\<lparr>current_token := ?t1\<rparr>"
  have first: "get_token stod (Suc d) s = Some (?t1, ?s')"
    using assms(1,2) r by (simp add: Let_def digit_not_alpha)
  have n: "next_char ?s' = CHR ''.''" using assms(4) by simp
  have ts: "token_start ?s' = ?s'\<lparr>current_symbol := end_of_program,
                 current_line_number := line_number ?s', current_pos_on_line := pos_on_line ?s'\<rparr>"
    by (rule token_start_at_dot [OF n])
  have "following_char (token_start ?s') = following_char s1"
    by (subst ts) (simp add: following_char_def)
  with assms(5) have f: "following_char (token_start ?s') = CHR ''.''" by simp
  have ne: "\<not> eof_flag (token_start ?s')"
    using following_char_not_eof [OF f] .
  have "next_char (token_start ?s') = next_char s1"
    by (subst ts) simp
  with assms(4) have n2: "next_char (token_start ?s') = CHR ''.''" by simp
  from get_token_range [OF ne n2 f, of stod d]
  obtain s'' where second: "get_token stod (Suc d) ?s'
      = Some (new_token range_sym (line_number (token_start ?s')) (pos_on_line (token_start ?s')), s'')"
    by blast
  have "tk_sym ?t1 = integer" by (simp add: new_token_def)
  moreover have "tk_sym (new_token range_sym (line_number (token_start ?s')) (pos_on_line (token_start ?s')))
                   = range_sym" by (simp add: new_token_def)
  ultimately show ?thesis using first second by blast
qed

text \<open>
  C6. The scanner has no token for a lone \<^verbatim>\<open>.\<close>. The line \<^verbatim>\<open>1..10\<close> scans as the
  integer 1, the range operator and the integer 10, followed by end of program, with
  no diagnostic, whatever the floating-point conversion does and for every depth
  bound of at least 1. In general: when the next lexeme starts with \<^verbatim>\<open>.\<close> followed by
  \<^verbatim>\<open>.\<close>, \<^verbatim>\<open>get_token\<close> returns the range token and reports nothing; when it starts with
  a \<^verbatim>\<open>.\<close> followed by anything else, \<^verbatim>\<open>get_token\<close> returns a \<^verbatim>\<open>nul\<close> token and reports
  diagnostic 22 at the position of the \<^verbatim>\<open>.\<close>; and when it starts with digits that
  are followed by \<^verbatim>\<open>..\<close>, \<^verbatim>\<open>get_token\<close> returns an integer token (never a real) and the
  next call returns the range token.
\<close>

theorem lone_dot_never_a_token:
  "map_option (\<lambda>(ts, s). (ts, error s)) (tokens stod (Suc d) 4 (scanner_init [''1..10'']))
     = Some ([(new_token integer 1 0)\<lparr>tk_integer_value := 1\<rparr>, new_token range_sym 1 1,
              (new_token integer 1 3)\<lparr>tk_integer_value := 10\<rparr>,
              new_token end_of_program 1 (- 1)], [])
   \<and> (\<not> eof_flag (token_start s) \<and> next_char (token_start s) = CHR ''.''
        \<and> following_char (token_start s) = CHR ''.'' \<longrightarrow>
        (\<exists>s'. get_token stod (Suc d) s
                 = Some (new_token range_sym (line_number (token_start s)) (pos_on_line (token_start s)), s')
             \<and> error s' = error s))
   \<and> (\<not> eof_flag (token_start s) \<and> next_char (token_start s) = CHR ''.''
        \<and> following_char (token_start s) \<noteq> CHR ''.'' \<longrightarrow>
        (\<exists>s'. get_token stod (Suc d) s
                 = Some (new_token nul (line_number (token_start s)) (pos_on_line (token_start s)), s')
             \<and> error s' = error s
                 @ [Flag_pos (line_number (token_start s)) (pos_on_line (token_start s)) 22]))
   \<and> (\<not> eof_flag (token_start s) \<and> isdigit (next_char (token_start s))
        \<and> next_char (snd (scan_digits [] (token_start s))) = CHR ''.''
        \<and> following_char (snd (scan_digits [] (token_start s))) = CHR ''.'' \<longrightarrow>
        (\<exists>t1 s' t2 s''. get_token stod (Suc d) s = Some (t1, s') \<and> tk_sym t1 = integer
             \<and> get_token stod (Suc d) s' = Some (t2, s'') \<and> tk_sym t2 = range_sym))"
proof -
  have a: "map_option (\<lambda>(ts, s). (ts, error s)) (tokens stod (Suc d) 4 (scanner_init [''1..10'']))
     = Some ([(new_token integer 1 0)\<lparr>tk_integer_value := 1\<rparr>, new_token range_sym 1 1,
              (new_token integer 1 3)\<lparr>tk_integer_value := 10\<rparr>,
              new_token end_of_program 1 (- 1)], [])"
    by code_simp
  have b: "\<not> eof_flag (token_start s) \<and> next_char (token_start s) = CHR ''.''
        \<and> following_char (token_start s) = CHR ''.'' \<longrightarrow>
        (\<exists>s'. get_token stod (Suc d) s
                 = Some (new_token range_sym (line_number (token_start s)) (pos_on_line (token_start s)), s')
             \<and> error s' = error s)"
    using get_token_range [of s stod d] by blast
  have c: "\<not> eof_flag (token_start s) \<and> next_char (token_start s) = CHR ''.''
        \<and> following_char (token_start s) \<noteq> CHR ''.'' \<longrightarrow>
        (\<exists>s'. get_token stod (Suc d) s
                 = Some (new_token nul (line_number (token_start s)) (pos_on_line (token_start s)), s')
             \<and> error s' = error s
                 @ [Flag_pos (line_number (token_start s)) (pos_on_line (token_start s)) 22])"
    using get_token_lone_dot [of s stod d] by blast
  have d: "\<not> eof_flag (token_start s) \<and> isdigit (next_char (token_start s))
        \<and> next_char (snd (scan_digits [] (token_start s))) = CHR ''.''
        \<and> following_char (snd (scan_digits [] (token_start s))) = CHR ''.'' \<longrightarrow>
        (\<exists>t1 s' t2 s''. get_token stod (Suc d) s = Some (t1, s') \<and> tk_sym t1 = integer
             \<and> get_token stod (Suc d) s' = Some (t2, s'') \<and> tk_sym t2 = range_sym)"
    using get_token_integer_then_range
            [of s "fst (scan_digits [] (token_start s))" "snd (scan_digits [] (token_start s))" stod d]
    by simp
  from a b c d show ?thesis by blast
qed

theorem lone_dot_never_a_token_witness:
  "(\<exists>s'. get_token (\<lambda>t. None) 1 (scanner_init [''. 5'']) = Some (new_token nul 1 0, s')
        \<and> error s' = [Flag_pos 1 0 22])
   \<and> (\<exists>s'. get_token (\<lambda>t. None) 1 (scanner_init [''  ..'']) = Some (new_token range_sym 1 2, s')
        \<and> error s' = [])
   \<and> (\<exists>t1 s' t2 s''. get_token (\<lambda>t. None) 1 (scanner_init [''27..3'']) = Some (t1, s')
        \<and> tk_sym t1 = integer
        \<and> get_token (\<lambda>t. None) 1 s' = Some (t2, s'') \<and> tk_sym t2 = range_sym)"
proof -
  let ?a = "scanner_init [''. 5'']"
  let ?b = "scanner_init [''  ..'']"
  let ?c = "scanner_init [''27..3'']"
  note T = lone_dot_never_a_token
  have a1: "\<not> eof_flag (token_start ?a)" by code_simp
  have a2: "next_char (token_start ?a) = CHR ''.''" by code_simp
  have a3: "following_char (token_start ?a) \<noteq> CHR ''.''" by code_simp
  have a4: "line_number (token_start ?a) = 1" "pos_on_line (token_start ?a) = 0" "error ?a = []"
    by code_simp+
  have b1: "\<not> eof_flag (token_start ?b)" by code_simp
  have b2: "next_char (token_start ?b) = CHR ''.''" by code_simp
  have b3: "following_char (token_start ?b) = CHR ''.''" by code_simp
  have b4: "line_number (token_start ?b) = 1" "pos_on_line (token_start ?b) = 2" "error ?b = []"
    by code_simp+
  have c1: "\<not> eof_flag (token_start ?c)" by code_simp
  have c2: "isdigit (next_char (token_start ?c))" by code_simp
  have c3: "next_char (snd (scan_digits [] (token_start ?c))) = CHR ''.''" by code_simp
  have c4: "following_char (snd (scan_digits [] (token_start ?c))) = CHR ''.''" by code_simp
  have A: "\<exists>s'. get_token (\<lambda>t. None) (Suc 0) ?a
                 = Some (new_token nul (line_number (token_start ?a)) (pos_on_line (token_start ?a)), s')
             \<and> error s' = error ?a
                 @ [Flag_pos (line_number (token_start ?a)) (pos_on_line (token_start ?a)) 22]"
    using T [of "\<lambda>t. None" 0 ?a] a1 a2 a3 by blast
  have B: "\<exists>s'. get_token (\<lambda>t. None) (Suc 0) ?b
                 = Some (new_token range_sym (line_number (token_start ?b)) (pos_on_line (token_start ?b)), s')
             \<and> error s' = error ?b"
    using T [of "\<lambda>t. None" 0 ?b] b1 b2 b3 by blast
  have C: "\<exists>t1 s' t2 s''. get_token (\<lambda>t. None) (Suc 0) ?c = Some (t1, s') \<and> tk_sym t1 = integer
             \<and> get_token (\<lambda>t. None) (Suc 0) s' = Some (t2, s'') \<and> tk_sym t2 = range_sym"
    using T [of "\<lambda>t. None" 0 ?c] c1 c2 c3 c4 by blast
  from A a4 have A': "\<exists>s'. get_token (\<lambda>t. None) 1 ?a = Some (new_token nul 1 0, s')
        \<and> error s' = [Flag_pos 1 0 22]" by simp
  from B b4 have B': "\<exists>s'. get_token (\<lambda>t. None) 1 ?b = Some (new_token range_sym 1 2, s')
        \<and> error s' = []" by simp
  from C have C': "\<exists>t1 s' t2 s''. get_token (\<lambda>t. None) 1 ?c = Some (t1, s')
        \<and> tk_sym t1 = integer
        \<and> get_token (\<lambda>t. None) 1 s' = Some (t2, s'') \<and> tk_sym t2 = range_sym" by simp
  from A' B' C' show ?thesis by blast
qed


end
